theory Spec2Isabelle
  imports Complex_Main "HOL-Library.Multiset"
begin

section \<open>Errors\<close>

text \<open>
  The Go code reports failures as \<open>error\<close> values built from message strings. The first
  constructors stand for one message of the source each, with the values the message is
  formatted with; the others carry the message itself, the error of a library or system
  call, the wrapping of an error, and a run-time panic.
\<close>

datatype error =
    PortExhausted nat
      \<comment> \<open>portmanager.GetPort: "failed to find available port after %d attempts"\<close>
  | InvalidArgument int
      \<comment> \<open>portmanager.ReleasePort: "port %d is outside valid range (%d-%d)"\<close>
  | PluginPathEmpty
      \<comment> \<open>ManifestPlugin.Validate: "plugin path cannot be empty"\<close>
  | PluginPathDoubleDot
      \<comment> \<open>ManifestPlugin.Validate: "plugin path cannot contain '..'"\<close>
  | PluginKindEmpty
      \<comment> \<open>ManifestPlugin.Validate: "plugin kind cannot be empty"\<close>
  | UnsupportedPluginKind string
      \<comment> \<open>ManifestPlugin.Validate: "unsupported plugin kind: %q"\<close>
  | InvalidRole string
      \<comment> \<open>transport: "invalid role %q, must be 'server' or 'client'"\<close>
  | ErrorNew string
      \<comment> \<open>any other \<open>errors.New\<close> or \<open>errors.Errorf\<close> of the repository, by its message\<close>
  | External string
      \<comment> \<open>an error returned by a library or system call\<close>
  | Wrap string error
      \<comment> \<open>\<open>errors.Wrap(err, message)\<close>\<close>
  | Panic string
      \<comment> \<open>a run-time panic\<close>

section \<open>Port manager (package portmanager)\<close>

definition minPort :: int where
  "minPort = 40000"

definition maxPort :: int where
  "maxPort = 50000"

definition maxAttempts :: nat where
  "maxAttempts = 10"

text \<open>
  \<open>usedPorts\<close> is a Go \<open>map[int]struct{}\<close>, that is a set of ports; \<open>lastAssigned\<close> is the
  cursor. The mutex serialises the calls, so one call is one atomic state transformer.
\<close>

record PortManager =
  usedPorts :: "int set"
  lastAssigned :: int

definition New :: PortManager where
  "New = \<lparr>usedPorts = {}, lastAssigned = minPort - 1\<rparr>"

text \<open>
  The bind test \<open>net.Listen("tcp", ":port")\<close> is answered by the operating system. The
  model takes its answers as a parameter \<open>listen attempt port\<close>: whether the bind test made
  in loop iteration \<open>attempt\<close> on \<open>port\<close> succeeds.

  \<open>GetPort_loop\<close> is the \<open>for attempt := 0; attempt < maxAttempts; attempt++\<close> loop,
  started at \<open>attempt\<close>; the final \<open>return 0, fmt.Errorf(...)\<close> is its exit branch.
\<close>

function GetPort_loop ::
  "(nat \<Rightarrow> int \<Rightarrow> bool) \<Rightarrow> nat \<Rightarrow> PortManager \<Rightarrow> (error + int) \<times> PortManager" where
  "GetPort_loop listen attempt pm =
     (if attempt < maxAttempts then
        (let pm1 = pm\<lparr>lastAssigned := lastAssigned pm + 1\<rparr>;
             pm2 = (if lastAssigned pm1 > maxPort then pm1\<lparr>lastAssigned := minPort\<rparr> else pm1)
         in if lastAssigned pm2 \<in> usedPorts pm2 then GetPort_loop listen (attempt + 1) pm2
            else if \<not> listen attempt (lastAssigned pm2) then GetPort_loop listen (attempt + 1) pm2
            else (Inr (lastAssigned pm2),
                  pm2\<lparr>usedPorts := insert (lastAssigned pm2) (usedPorts pm2)\<rparr>))
      else (Inl (PortExhausted maxAttempts), pm))"
  by pat_completeness auto
termination
  by (relation "measure (\<lambda>(listen, attempt, pm). maxAttempts - attempt)") auto

definition GetPort :: "(nat \<Rightarrow> int \<Rightarrow> bool) \<Rightarrow> PortManager \<Rightarrow> (error + int) \<times> PortManager" where
  "GetPort listen pm = GetPort_loop listen 0 pm"

text \<open>\<open>ReleasePort\<close> returns \<open>None\<close> for Go's \<open>nil\<close> error.\<close>

definition ReleasePort :: "int \<Rightarrow> PortManager \<Rightarrow> error option \<times> PortManager" where
  "ReleasePort port pm =
     (if port < minPort \<or> port > maxPort then (Some (InvalidArgument port), pm)
      else (None, pm\<lparr>usedPorts := usedPorts pm - {port}\<rparr>))"

subsection \<open>Sequences of calls on one manager\<close>

text \<open>
  A client of the manager issues \<open>GetPort\<close> and \<open>ReleasePort\<close> calls one after the other;
  each \<open>GetPort\<close> call comes with the answers the bind tests get during that call. The
  run records what every call returned.
\<close>

datatype port_op = OpGetPort "nat \<Rightarrow> int \<Rightarrow> bool" | OpReleasePort int

datatype port_event =
    Acquired int | AcquireFailed error | Released int | ReleaseRejected error

fun port_step :: "PortManager \<Rightarrow> port_op \<Rightarrow> port_event \<times> PortManager" where
  "port_step pm (OpGetPort listen) =
     (case GetPort listen pm of
        (Inr p, pm') \<Rightarrow> (Acquired p, pm')
      | (Inl e, pm') \<Rightarrow> (AcquireFailed e, pm'))"
| "port_step pm (OpReleasePort p) =
     (case ReleasePort p pm of
        (None, pm') \<Rightarrow> (Released p, pm')
      | (Some e, pm') \<Rightarrow> (ReleaseRejected e, pm'))"

fun run_ops :: "PortManager \<Rightarrow> port_op list \<Rightarrow> port_event list \<times> PortManager" where
  "run_ops pm [] = ([], pm)"
| "run_ops pm (op # ops) =
     (case port_step pm op of (ev, pm') \<Rightarrow>
        (case run_ops pm' ops of (evs, pm'') \<Rightarrow> (ev # evs, pm'')))"

text \<open>
  The ports a client holds after a history of calls: those a \<open>GetPort\<close> returned and no
  later accepted \<open>ReleasePort\<close> gave back. It is computed from the returned values alone.
\<close>

fun apply_event :: "int set \<Rightarrow> port_event \<Rightarrow> int set" where
  "apply_event H (Acquired p) = insert p H"
| "apply_event H (Released p) = H - {p}"
| "apply_event H (AcquireFailed e) = H"
| "apply_event H (ReleaseRejected e) = H"

definition held :: "port_event list \<Rightarrow> int set" where
  "held evs = foldl apply_event {} evs"

text \<open>
  \<open>advance\<close> is the cursor step at the head of the loop body (increment, wrap to
  \<open>minPort\<close> past \<open>maxPort\<close>); \<open>candidate pm k\<close> is the port examined in iteration \<open>k\<close>
  of a \<open>GetPort\<close> call that starts in \<open>pm\<close>.
\<close>

definition advance :: "int \<Rightarrow> int" where
  "advance l = (if l + 1 > maxPort then minPort else l + 1)"

definition candidate :: "PortManager \<Rightarrow> nat \<Rightarrow> int" where
  "candidate pm k = (advance ^^ (k + 1)) (lastAssigned pm)"

definition cursor_ok :: "PortManager \<Rightarrow> bool" where
  "cursor_ok pm \<longleftrightarrow> minPort - 1 \<le> lastAssigned pm \<and> lastAssigned pm \<le> maxPort"

text \<open>Bind-test answers used in examples: every port free, no port free.\<close>

definition all_free :: "nat \<Rightarrow> int \<Rightarrow> bool" where
  "all_free attempt port = True"

definition none_free :: "nat \<Rightarrow> int \<Rightarrow> bool" where
  "none_free attempt port = False"

section \<open>Manifest configuration (package config)\<close>

text \<open>
  The process environment maps variable names to values; \<open>os.Getenv\<close> returns the empty
  string for a variable that is not set.
\<close>

type_synonym environ = "string \<Rightarrow> string option"

definition Getenv :: "environ \<Rightarrow> string \<Rightarrow> string" where
  "Getenv env key = (case env key of None \<Rightarrow> [] | Some v \<Rightarrow> v)"

text \<open>
  \<open>strings.HasPrefix\<close>, \<open>strings.Contains\<close> and, for the Unix build the runner needs
  (it calls \<open>syscall.Kill\<close> and sets \<open>Setpgid\<close>), \<open>filepath.IsAbs\<close>: a path is
  absolute when it starts with a slash.
\<close>

definition HasPrefix :: "string \<Rightarrow> string \<Rightarrow> bool" where
  "HasPrefix s pre = (take (length pre) s = pre)"

fun Contains :: "string \<Rightarrow> string \<Rightarrow> bool" where
  "Contains [] substr = (substr = [])"
| "Contains (c # s) substr = (HasPrefix (c # s) substr \<or> Contains s substr)"

definition IsAbs :: "string \<Rightarrow> bool" where
  "IsAbs path = HasPrefix path ''/''"

record ManifestPlugin =
  Name :: string
  Path :: string
  Kind :: string

text \<open>\<open>ManifestPlugin.Validate\<close>; \<open>None\<close> is Go's \<open>nil\<close> error.\<close>

definition ManifestPlugin_Validate :: "environ \<Rightarrow> ManifestPlugin \<Rightarrow> error option" where
  "ManifestPlugin_Validate env p =
     (if Path p = [] then Some PluginPathEmpty
      else if \<not> IsAbs (Path p) \<and> Contains (Path p) ''..''
              \<and> Getenv env ''GRPC_PLUGINS_ALLOW_RELATIVE_PATHS_DOUBLE_DOT'' \<noteq> ''true''
        then Some PluginPathDoubleDot
      else if Kind p = ''build_and_run'' then None
      else if Kind p = [] then Some PluginKindEmpty
      else Some (UnsupportedPluginKind (Kind p)))"

text \<open>The \<open>switch p.Kind\<close> at the end of \<open>Validate\<close>, on its own.\<close>

definition kind_check :: "ManifestPlugin \<Rightarrow> error option" where
  "kind_check p =
     (if Kind p = ''build_and_run'' then None
      else if Kind p = [] then Some PluginKindEmpty
      else Some (UnsupportedPluginKind (Kind p)))"

section \<open>The Go library the code calls\<close>

text \<open>
  The packages \<open>crypto/x509\<close>, \<open>crypto/rsa\<close>, \<open>encoding/base64\<close>, \<open>encoding/json\<close> and
  \<open>time\<close> are not part of the repository. Their functions are parameters of the model,
  collected in the record \<open>stdlib\<close> below; theorems state what they need of them as
  hypotheses. Byte slices and Go strings are both byte sequences, modelled as \<open>string\<close>.
\<close>

type_synonym bytes = string

text \<open>\<open>rsa.PrivateKey\<close> with modulus, public exponent, private exponent and primes.\<close>

datatype PublicKey = RSAPublicKey nat nat

datatype PrivateKey = RSAPrivateKey nat nat nat "nat list"

fun Public :: "PrivateKey \<Rightarrow> PublicKey" where
  "Public (RSAPrivateKey n e d ps) = RSAPublicKey n e"

datatype KeyUsage = KeyUsageCertSign | KeyUsageDigitalSignature

datatype ExtKeyUsage = ExtKeyUsageServerAuth | ExtKeyUsageClientAuth

text \<open>
  \<open>x509.Certificate\<close>, with the fields the code sets in its templates and \<open>Raw\<close>, the
  complete DER encoding, which a template leaves empty. Times are seconds; IP addresses
  are kept in their textual form.
\<close>

record Certificate =
  Raw :: bytes
  SerialNumber :: int
  CommonName :: string
  Organization :: "string list"
  NotBefore :: int
  NotAfter :: int
  KeyUsage :: "KeyUsage list"
  ExtKeyUsage :: "ExtKeyUsage list"
  BasicConstraintsValid :: bool
  IsCA :: bool
  DNSNames :: "string list"
  IPAddresses :: "string list"

text \<open>The wire form of a credential, \<open>KeyAndCertSerialized\<close>, with its JSON field names.\<close>

record KeyAndCertSerialized =
  cert_bytes :: string
  ca_cert_bytes :: string
  private_key_pkcs1 :: string
  cn :: string

text \<open>
  Dynamic Go values (\<open>interface{}\<close>), as far as the logger options need them: \<open>nil\<close>,
  booleans, strings, integers, \<open>float64\<close> (a finite value, given by the rational number it
  denotes), slices and string-keyed maps. A Go map is an association list with distinct
  keys; the order of the list has no meaning.
\<close>

datatype any =
    ANil
  | ABool bool
  | AString string
  | AInt int
  | AFloat64 rat
  | AList "any list"
  | AMap "(string \<times> any) list"

record stdlib =
  x509_CreateCertificate ::
    "Certificate \<Rightarrow> Certificate \<Rightarrow> PublicKey \<Rightarrow> PrivateKey \<Rightarrow> error + bytes"
  x509_ParseCertificate :: "bytes \<Rightarrow> error + Certificate"
  x509_MarshalPKCS1PrivateKey :: "PrivateKey \<Rightarrow> bytes"
  x509_ParsePKCS1PrivateKey :: "bytes \<Rightarrow> error + PrivateKey"
  base64_EncodeToString :: "bytes \<Rightarrow> string"
  base64_DecodeString :: "string \<Rightarrow> error + bytes"
  json_Marshal_KeyAndCert :: "KeyAndCertSerialized \<Rightarrow> error + bytes"
  json_Unmarshal_KeyAndCert :: "bytes \<Rightarrow> error + KeyAndCertSerialized"
  json_Marshal :: "any \<Rightarrow> error + bytes"
  json_Unmarshal :: "bytes \<Rightarrow> error + any"
  time_AddDate :: "int \<Rightarrow> int \<Rightarrow> int \<Rightarrow> int \<Rightarrow> int"

text \<open>
  What the calls to \<open>rsa.GenerateKey\<close>, \<open>rand.Int\<close> and \<open>time.Now\<close> return during one
  certificate generation (\<open>time.Now\<close> is called twice).
\<close>

record entropy =
  rsa_GenerateKey :: "error + PrivateKey"
  rand_Int :: "error + int"
  time_Now1 :: int
  time_Now2 :: int

section \<open>Log levels (package log/slog)\<close>



section \<open>PKI (package transport)\<close>

definition rsaKeyBits :: nat where
  "rsaKeyBits = 2048"

definition certValidityYears :: int where
  "certValidityYears = 1"

record PrivateCA =
  ca_PrivateKey :: PrivateKey
  ca_Cert :: Certificate
  ca_CertBytes :: bytes

definition GeneratePrivateCA :: "stdlib \<Rightarrow> entropy \<Rightarrow> error + PrivateCA" where
  "GeneratePrivateCA lib ent =
     (case rsa_GenerateKey ent of
        Inl err \<Rightarrow> Inl (Wrap ''failed to generate CA private key'' err)
      | Inr privateKey \<Rightarrow>
          (let template =
                 \<lparr>Raw = [], SerialNumber = 1, CommonName = [],
                  Organization = [''GRPC_Plugins''],
                  NotBefore = time_Now1 ent - 1,
                  NotAfter = time_AddDate lib certValidityYears 0 0 (time_Now2 ent),
                  KeyUsage = [KeyUsageCertSign, KeyUsageDigitalSignature],
                  ExtKeyUsage = [ExtKeyUsageServerAuth, ExtKeyUsageClientAuth],
                  BasicConstraintsValid = True, IsCA = True,
                  DNSNames = [], IPAddresses = []\<rparr>
           in case x509_CreateCertificate lib template template (Public privateKey) privateKey of
                Inl err \<Rightarrow> Inl (Wrap ''failed to create CA certificate'' err)
              | Inr certBytes \<Rightarrow>
                  (case x509_ParseCertificate lib certBytes of
                     Inl err \<Rightarrow> Inl (Wrap ''failed to parse CA certificate'' err)
                   | Inr cert \<Rightarrow>
                       Inr \<lparr>ca_PrivateKey = privateKey, ca_Cert = cert,
                            ca_CertBytes = certBytes\<rparr>)))"

text \<open>
  \<open>KeyAndCert\<close>. \<open>Key\<close>, \<open>CACert\<close> and \<open>Cert\<close> are pointers in the source; \<open>None\<close> is the
  nil pointer, and dereferencing it is the panic \<open>Panic\<close>.
\<close>

record KeyAndCert =
  CN :: string
  Key :: "PrivateKey option"
  CACert :: "Certificate option"
  CACertBytes :: bytes
  Cert :: "Certificate option"
  CertBytes :: bytes

text \<open>\<open>crypto/tls\<close>: the configuration record, restricted to the fields the code sets.\<close>

datatype ClientAuthType =
    NoClientCert | RequestClientCert | RequireAnyClientCert
  | VerifyClientCertIfGiven | RequireAndVerifyClientCert

definition VersionTLS13 :: nat where
  "VersionTLS13 = 0x0304"

record tls_Certificate =
  Certificate :: "bytes list"
  PrivateKey :: "PrivateKey option"
  Leaf :: "Certificate option"

text \<open>A certificate pool is the list of the certificates added to it, without repetition.\<close>

type_synonym CertPool = "Certificate list"

definition NewCertPool :: CertPool where
  "NewCertPool = []"

definition AddCert :: "Certificate \<Rightarrow> CertPool \<Rightarrow> CertPool" where
  "AddCert cert pool = (if cert \<in> set pool then pool else pool @ [cert])"

record tls_Config =
  InsecureSkipVerify :: bool
  MinVersion :: nat
  MaxVersion :: nat
  ClientAuth :: ClientAuthType
  Certificates :: "tls_Certificate list"
  RootCAs :: CertPool
  ClientCAs :: CertPool

text \<open>
  \<open>GetTLSConfig\<close>. Its Go error result is always nil; the only failures are the panics
  of \<open>AddCert\<close> on a nil certificate and of \<open>k.Cert.Raw\<close> on a nil \<open>k.Cert\<close>.
\<close>

definition GetTLSConfig :: "KeyAndCert \<Rightarrow> error + tls_Config" where
  "GetTLSConfig k =
     (case CACert k of
        None \<Rightarrow> Inl (Panic ''x509: adding nil Certificate to CertPool'')
      | Some caCert \<Rightarrow>
          (let certPool = AddCert caCert NewCertPool
           in case Cert k of
                None \<Rightarrow> Inl (Panic ''nil pointer dereference'')
              | Some cert \<Rightarrow>
                  Inr \<lparr>InsecureSkipVerify = False,
                       MinVersion = VersionTLS13,
                       MaxVersion = VersionTLS13,
                       ClientAuth = RequireAndVerifyClientCert,
                       Certificates =
                         [\<lparr>Certificate = [Raw cert], PrivateKey = Key k, Leaf = Some cert\<rparr>],
                       RootCAs = certPool,
                       ClientCAs = certPool\<rparr>))"


text \<open>The struct literal \<open>toSerialize\<close> of \<open>Serialize\<close>, for non-nil pointers.\<close>

definition toSerialize ::
  "stdlib \<Rightarrow> string \<Rightarrow> Certificate \<Rightarrow> Certificate \<Rightarrow> PrivateKey \<Rightarrow> KeyAndCertSerialized" where
  "toSerialize lib name cert caCert key =
     \<lparr>cert_bytes = base64_EncodeToString lib (Raw cert),
      ca_cert_bytes = base64_EncodeToString lib (Raw caCert),
      private_key_pkcs1 = base64_EncodeToString lib (x509_MarshalPKCS1PrivateKey lib key),
      cn = name\<rparr>"

definition Serialize :: "stdlib \<Rightarrow> KeyAndCert \<Rightarrow> error + bytes" where
  "Serialize lib k =
     (case Cert k of
        None \<Rightarrow> Inl (Panic ''nil pointer dereference'')
      | Some cert \<Rightarrow>
          (case CACert k of
             None \<Rightarrow> Inl (Panic ''nil pointer dereference'')
           | Some caCert \<Rightarrow>
               (case Key k of
                  None \<Rightarrow> Inl (Panic ''nil pointer dereference'')
                | Some key \<Rightarrow>
                    (case json_Marshal_KeyAndCert lib (toSerialize lib (CN k) cert caCert key) of
                       Inl err \<Rightarrow> Inl (Wrap ''failed to marshal key and cert to JSON'' err)
                     | Inr jsonBytes \<Rightarrow> Inr jsonBytes))))"

definition DeserializeKeyAndCert :: "stdlib \<Rightarrow> bytes \<Rightarrow> error + KeyAndCert" where
  "DeserializeKeyAndCert lib data =
     (case json_Unmarshal_KeyAndCert lib data of
        Inl err \<Rightarrow> Inl (Wrap ''failed to unmarshal key and cert data from JSON'' err)
      | Inr toDeserialize \<Rightarrow>
     (case base64_DecodeString lib (cert_bytes toDeserialize) of
        Inl err \<Rightarrow> Inl (Wrap ''failed to decode certificate bytes from base64'' err)
      | Inr certBytes \<Rightarrow>
     (case base64_DecodeString lib (ca_cert_bytes toDeserialize) of
        Inl err \<Rightarrow> Inl (Wrap ''failed to decode CA certificate bytes from base64'' err)
      | Inr caCertBytes \<Rightarrow>
     (case base64_DecodeString lib (private_key_pkcs1 toDeserialize) of
        Inl err \<Rightarrow> Inl (Wrap ''failed to decode private key from base64'' err)
      | Inr privateKeyBytes \<Rightarrow>
     (case x509_ParsePKCS1PrivateKey lib privateKeyBytes of
        Inl err \<Rightarrow> Inl (Wrap ''failed to parse PKCS1 private key'' err)
      | Inr key \<Rightarrow>
     (case x509_ParseCertificate lib certBytes of
        Inl err \<Rightarrow> Inl (Wrap ''failed to parse certificate'' err)
      | Inr cert \<Rightarrow>
     (case x509_ParseCertificate lib caCertBytes of
        Inl err \<Rightarrow> Inl (Wrap ''failed to parse CA certificate'' err)
      | Inr caCert \<Rightarrow>
          Inr \<lparr>CN = cn toDeserialize, Key = Some key,
               CACert = Some caCert, CACertBytes = caCertBytes,
               Cert = Some cert, CertBytes = certBytes\<rparr>)))))))"



type_synonym Role = string

definition RoleServer :: Role where
  "RoleServer = ''server''"

definition RoleClient :: Role where
  "RoleClient = ''client''"

text \<open>
  \<open>GenerateKeyAndCertFromCA\<close>; the argument \<open>ca\<close> is a pointer, \<open>None\<close> when nil. The
  serial number is drawn below 1000000 by \<open>rand.Int\<close>.
\<close>

definition GenerateKeyAndCertFromCA ::
  "stdlib \<Rightarrow> entropy \<Rightarrow> PrivateCA option \<Rightarrow> string \<Rightarrow> Role \<Rightarrow> error + KeyAndCert" where
  "GenerateKeyAndCertFromCA lib ent ca subject role =
     (case ca of
        None \<Rightarrow> Inl (ErrorNew ''CA cannot be nil'')
      | Some ca \<Rightarrow>
     (case rsa_GenerateKey ent of
        Inl err \<Rightarrow> Inl (Wrap (''failed to generate private key for '' @ subject) err)
      | Inr serverKey \<Rightarrow>
     (case (if role = ''server'' then Inr [ExtKeyUsageServerAuth]
            else if role = ''client'' then Inr [ExtKeyUsageClientAuth]
            else Inl (InvalidRole role)) of
        Inl err \<Rightarrow> Inl err
      | Inr usage \<Rightarrow>
     (case rand_Int ent of
        Inl err \<Rightarrow> Inl (Wrap (''failed to generate serial number for '' @ subject) err)
      | Inr sn \<Rightarrow>
          (let template =
                 \<lparr>Raw = [], SerialNumber = sn, CommonName = subject,
                  Organization = [''GRPC_Plugins''],
                  NotBefore = time_Now1 ent - 1,
                  NotAfter = time_AddDate lib 1 0 0 (time_Now2 ent),
                  KeyUsage = [KeyUsageDigitalSignature],
                  ExtKeyUsage = usage,
                  BasicConstraintsValid = False, IsCA = False,
                  DNSNames = [''localhost''], IPAddresses = [''127.0.0.1'', ''::1'']\<rparr>
           in case x509_CreateCertificate lib template (ca_Cert ca) (Public serverKey)
                     (ca_PrivateKey ca) of
                Inl err \<Rightarrow> Inl (Wrap (''failed to create certificate for '' @ subject) err)
              | Inr certBytes \<Rightarrow>
                  (case x509_ParseCertificate lib certBytes of
                     Inl err \<Rightarrow> Inl (Wrap (''failed to parse certificate for '' @ subject) err)
                   | Inr cert \<Rightarrow>
                       Inr \<lparr>CN = subject, Key = Some serverKey,
                            CACert = Some (ca_Cert ca), CACertBytes = ca_CertBytes ca,
                            Cert = Some cert, CertBytes = certBytes\<rparr>))))))"

text \<open>\<open>config.TLSConfig\<close> and the transport generator.\<close>

record TLSConfig =
  UseCustomTLS :: bool

record TransportGenerator =
  gen_ca :: "PrivateCA option"
  gen_cfg :: TLSConfig

definition NewTransportGenerator :: "stdlib \<Rightarrow> entropy \<Rightarrow> TLSConfig \<Rightarrow> error + TransportGenerator" where
  "NewTransportGenerator lib ent c =
     (if UseCustomTLS c then Inl (ErrorNew ''custom TLS is not supported yet'')
      else case GeneratePrivateCA lib ent of
             Inl err \<Rightarrow> Inl (Wrap ''failed to generate private CA'' err)
           | Inr a \<Rightarrow> Inr \<lparr>gen_ca = Some a, gen_cfg = c\<rparr>)"

definition GenerateKeyAndCert ::
  "stdlib \<Rightarrow> entropy \<Rightarrow> TransportGenerator \<Rightarrow> string \<Rightarrow> Role \<Rightarrow> error + KeyAndCert" where
  "GenerateKeyAndCert lib ent t subject role =
     (if role \<noteq> RoleServer \<and> role \<noteq> RoleClient then Inl (InvalidRole role)
      else case GenerateKeyAndCertFromCA lib ent (gen_ca t) subject role of
             Inl err \<Rightarrow>
               Inl (Wrap (''failed to generate key and cert for '' @ subject @ '' with role '' @ role) err)
           | Inr keyAndCert \<Rightarrow> Inr keyAndCert)"

section \<open>Logger options (package config)\<close>

text \<open>
  \<open>slog.Value\<close> with the kinds Bool, String, Int64, Float64 and Any (the kinds Duration,
  Time, Uint64, Group and LogValuer are not modelled). \<open>Value_Any\<close> is the method
  \<open>Value.Any()\<close>, \<open>slog_AnyValue\<close> the function \<open>slog.AnyValue\<close>, which picks the kind
  from the dynamic type of its argument. An \<open>slog.Attr\<close> is a key with a value.
\<close>

datatype Value =
    BoolValue bool
  | StringValue string
  | Int64Value int
  | Float64Value rat
  | KindAny any

fun Value_Any :: "Value \<Rightarrow> any" where
  "Value_Any (BoolValue b) = ABool b"
| "Value_Any (StringValue s) = AString s"
| "Value_Any (Int64Value n) = AInt n"
| "Value_Any (Float64Value x) = AFloat64 x"
| "Value_Any (KindAny v) = v"

fun slog_AnyValue :: "any \<Rightarrow> Value" where
  "slog_AnyValue (ABool b) = BoolValue b"
| "slog_AnyValue (AString s) = StringValue s"
| "slog_AnyValue (AInt n) = Int64Value n"
| "slog_AnyValue (AFloat64 x) = Float64Value x"
| "slog_AnyValue v = KindAny v"

type_synonym Attr = "string \<times> Value"

record LoggerOptions =
  Type :: string
  Level :: "int option"
  Attributes :: "Attr list"

text \<open>
  Go maps as association lists: \<open>m[k] = v\<close> replaces the entry of an existing key and
  adds one for a new key; \<open>m[k]\<close> with the two-value form is \<open>map_of m k\<close>.
\<close>

fun map_assign :: "('k \<times> 'v) list \<Rightarrow> 'k \<Rightarrow> 'v \<Rightarrow> ('k \<times> 'v) list" where
  "map_assign [] k v = [(k, v)]"
| "map_assign ((k', v') # m) k v =
     (if k' = k then (k, v) # m else (k', v') # map_assign m k v)"

text \<open>The map \<open>attributes\<close> that the loop of \<open>MarshalJSON\<close> fills, and the map \<open>data\<close>.\<close>

definition marshal_attributes :: "Attr list \<Rightarrow> (string \<times> any) list" where
  "marshal_attributes attrs = foldl (\<lambda>m (key, val). map_assign m key (Value_Any val)) [] attrs"

definition marshal_data :: "LoggerOptions \<Rightarrow> (string \<times> any) list" where
  "marshal_data l =
     (let data = [(''type'', AString (Type l))];
          data = (case Level l of None \<Rightarrow> data | Some lv \<Rightarrow> map_assign data ''level'' (AInt lv))
      in map_assign data ''attributes'' (AMap (marshal_attributes (Attributes l))))"

definition MarshalJSON :: "stdlib \<Rightarrow> LoggerOptions \<Rightarrow> error + bytes" where
  "MarshalJSON lib l = json_Marshal lib (AMap (marshal_data l))"

text \<open>
  \<open>math.Round\<close> rounds half away from zero; the conversion \<open>int(f)\<close> of an integral
  \<open>float64\<close> is exact inside the 64-bit range and, outside it, yields the smallest
  \<open>int64\<close> (the result on amd64; Go leaves it to the implementation).
\<close>

definition math_Round :: "rat \<Rightarrow> rat" where
  "math_Round x = (if 0 \<le> x then of_int \<lfloor>x + 1 / 2\<rfloor> else - of_int \<lfloor>- x + 1 / 2\<rfloor>)"

definition int_of_float64 :: "rat \<Rightarrow> int" where
  "int_of_float64 x =
     (let t = (if 0 \<le> x then \<lfloor>x\<rfloor> else - \<lfloor>- x\<rfloor>)
      in if - (2 ^ 63) \<le> t \<and> t < 2 ^ 63 then t else - (2 ^ 63))"

text \<open>
  \<open>json.Unmarshal\<close> into a variable of type \<open>map[string]interface{}\<close>: a JSON object
  gives the map, JSON \<open>null\<close> leaves the map nil (it reads as empty), anything else is a
  type error of the decoder.
\<close>

definition decode_map :: "any \<Rightarrow> error + (string \<times> any) list" where
  "decode_map v =
     (case v of
        AMap m \<Rightarrow> Inr m
      | ANil \<Rightarrow> Inr []
      | _ \<Rightarrow> Inl (External ''json: cannot unmarshal into Go value of type map[string]interface {}''))"

text \<open>
  \<open>UnmarshalJSON\<close> updates its receiver \<open>l\<close> field by field and returns an error or nil;
  the model returns the error with the receiver as the call leaves it. The order in which
  \<open>range attrMap\<close> visits the entries is chosen by the Go runtime: \<open>order\<close> is that choice.
\<close>

definition UnmarshalJSON ::
  "stdlib \<Rightarrow> ((string \<times> any) list \<Rightarrow> (string \<times> any) list) \<Rightarrow> bytes \<Rightarrow> LoggerOptions
     \<Rightarrow> error option \<times> LoggerOptions" where
  "UnmarshalJSON lib order data l =
     (case json_Unmarshal lib data of
        Inl err \<Rightarrow> (Some err, l)
      | Inr v \<Rightarrow>
     (case decode_map v of
        Inl err \<Rightarrow> (Some err, l)
      | Inr tmp \<Rightarrow>
     (case map_of tmp ''type'' of
        Some (AString s) \<Rightarrow>
          (let l1 = l\<lparr>Type := s\<rparr>
           in case (case map_of tmp ''level'' of
                      None \<Rightarrow> Inr l1
                    | Some (AFloat64 levelFloat) \<Rightarrow>
                        Inr (l1\<lparr>Level := Some (int_of_float64 (math_Round levelFloat))\<rparr>)
                    | Some _ \<Rightarrow> Inl (ErrorNew ''level is not an integer'')) of
                Inl err \<Rightarrow> (Some err, l1)
              | Inr l2 \<Rightarrow>
                  (case map_of tmp ''attributes'' of
                     None \<Rightarrow> (None, l2)
                   | Some (AMap attrMap) \<Rightarrow>
                       (None, l2\<lparr>Attributes :=
                                  map (\<lambda>(key, val). (key, slog_AnyValue val)) (order attrMap)\<rparr>)
                   | Some _ \<Rightarrow> (Some (ErrorNew ''attributes is not a map''), l2)))
      | _ \<Rightarrow> (Some (Panic ''interface conversion: interface {} is not string''), l))))"

text \<open>
  What \<open>encoding/json\<close> makes of a Go value that is encoded and then decoded into an
  \<open>interface{}\<close>, when its strings are valid UTF-8: every number comes back as the
  nearest \<open>float64\<close> (round to even), and the rest keeps its shape.
\<close>

fun bit_length :: "nat \<Rightarrow> nat" where
  "bit_length n = (if n = 0 then 0 else Suc (bit_length (n div 2)))"

definition float64_of_int :: "int \<Rightarrow> rat" where
  "float64_of_int n =
     (let a = nat \<bar>n\<bar>
      in if a < 2 ^ 53 then of_int n
         else (let e = bit_length a - 53;
                   q = a div 2 ^ e;
                   r = a mod 2 ^ e;
                   q' = (if 2 * r > 2 ^ e \<or> (2 * r = 2 ^ e \<and> odd q) then q + 1 else q)
               in of_int (sgn n * int (q' * 2 ^ e))))"

fun json_view :: "any \<Rightarrow> any" where
  "json_view ANil = ANil"
| "json_view (ABool b) = ABool b"
| "json_view (AString s) = AString s"
| "json_view (AInt n) = AFloat64 (float64_of_int n)"
| "json_view (AFloat64 x) = AFloat64 x"
| "json_view (AList vs) = AList (map json_view vs)"
| "json_view (AMap m) = AMap (map (\<lambda>(k, v). (k, json_view v)) m)"

text \<open>A value is stable when its kind and content survive that round trip.\<close>

definition json_stable :: "Value \<Rightarrow> bool" where
  "json_stable v \<longleftrightarrow> slog_AnyValue (json_view (Value_Any v)) = v"

text \<open>
  The library round-trips \<open>v\<close> when the document it encodes \<open>v\<close> to decodes to that view.
\<close>

definition json_round_trip :: "stdlib \<Rightarrow> any \<Rightarrow> bool" where
  "json_round_trip lib v \<longleftrightarrow>
     (\<forall>d. json_Marshal lib v = Inr d \<longrightarrow> json_Unmarshal lib d = Inr (json_view v))"

definition zero_LoggerOptions :: LoggerOptions where
  "zero_LoggerOptions = \<lparr>Type = [], Level = None, Attributes = []\<rparr>"

section \<open>Manifests (package config)\<close>

text \<open>
  \<open>filepath.Base\<close> on Unix: the last element of the path, after trailing slashes are
  removed; \<open>"."\<close> for the empty path and \<open>"/"\<close> for a path of slashes only.
\<close>

definition Base :: "string \<Rightarrow> string" where
  "Base path =
     (if path = [] then ''.''
      else (let stripped = rev (dropWhile (\<lambda>c. c = CHR ''/'') (rev path));
                elem = rev (takeWhile (\<lambda>c. c \<noteq> CHR ''/'') (rev stripped))
            in if elem = [] then ''/'' else elem))"

text \<open>
  \<open>GetName\<close> returns the name and stores it in the receiver. \<open>rnd\<close> is the label that
  \<open>generateRandomName\<close> would draw.
\<close>

definition GetName :: "string \<Rightarrow> ManifestPlugin \<Rightarrow> string \<times> ManifestPlugin" where
  "GetName rnd p =
     (if Name p \<noteq> [] then (Name p, p)
      else if Path p \<noteq> [] then (let name = Base (Path p) in (name, p\<lparr>Name := name\<rparr>))
      else (rnd, p\<lparr>Name := rnd\<rparr>))"

record ManifestConfig =
  Plugins :: "ManifestPlugin list"
  TLS :: TLSConfig

text \<open>
  The loop of \<open>ManifestConfig.Validate\<close> with its two sets of seen names and seen
  absolute paths; \<open>i\<close> is the index of the plugin at the head. \<open>filepath.Abs\<close> depends on
  the working directory and is a parameter.
\<close>

fun validate_plugins ::
  "environ \<Rightarrow> (string \<Rightarrow> error + string) \<Rightarrow> string \<Rightarrow> nat \<Rightarrow> ManifestPlugin list
     \<Rightarrow> string set \<Rightarrow> string set \<Rightarrow> error option" where
  "validate_plugins env absf rnd i [] seenNames seenPaths = None"
| "validate_plugins env absf rnd i (plugin # rest) seenNames seenPaths =
     (case ManifestPlugin_Validate env plugin of
        Some err \<Rightarrow> Some (Wrap ''invalid plugin at index'' err)
      | None \<Rightarrow>
          (let name = fst (GetName rnd plugin)
           in if name \<in> seenNames then Some (ErrorNew (''duplicate plugin name '' @ name))
              else (case absf (Path plugin) of
                      Inl err \<Rightarrow> Some (Wrap (''failed to get absolute path for plugin '' @ name) err)
                    | Inr absPath \<Rightarrow>
                        if absPath \<in> seenPaths
                        then Some (ErrorNew (''duplicate plugin path '' @ absPath))
                        else validate_plugins env absf rnd (i + 1) rest
                               (insert name seenNames) (insert absPath seenPaths))))"

definition ManifestConfig_Validate ::
  "environ \<Rightarrow> (string \<Rightarrow> error + string) \<Rightarrow> string \<Rightarrow> ManifestConfig \<Rightarrow> error option" where
  "ManifestConfig_Validate env absf rnd c =
     (if Plugins c = [] then Some (ErrorNew ''manifest must contain at least one plugin'')
      else validate_plugins env absf rnd 0 (Plugins c) {} {})"

text \<open>\<open>Manifest\<close>: kind \<open>"file"\<close> with a path, or kind \<open>"inline"\<close> with a configuration.\<close>

record Manifest =
  manifest_Kind :: string
  manifest_Path :: string
  manifest_Config :: "ManifestConfig option"

definition Manifest_Validate :: "Manifest \<Rightarrow> error option" where
  "Manifest_Validate m =
     (if manifest_Kind m = ''file'' then
        (if manifest_Path m = [] then Some (ErrorNew ''manifest path cannot be empty for kind file'')
         else if \<not> IsAbs (manifest_Path m) \<and> Contains (manifest_Path m) ''..''
           then Some (ErrorNew ''manifest path cannot contain ..'')
         else None)
      else if manifest_Kind m = ''inline'' then
        (if manifest_Config m = None
         then Some (ErrorNew ''manifest config cannot be nil for kind inline'')
         else None)
      else if manifest_Kind m = [] then Some (ErrorNew ''manifest kind cannot be empty'')
      else Some (ErrorNew (''unsupported manifest kind: '' @ manifest_Kind m)))"

text \<open>
  What the file system and the process give the loader: the environment variables,
  \<open>filepath.Abs\<close>, the random plugin label, and the result of reading and parsing a
  manifest file (\<open>os.ReadFile\<close>, then \<open>yaml.Unmarshal\<close>).
\<close>

record fs_env =
  environment :: environ
  filepath_Abs :: "string \<Rightarrow> error + string"
  random_name :: string
  os_ReadFile :: "string \<Rightarrow> error + bytes"
  yaml_Unmarshal :: "bytes \<Rightarrow> error + ManifestConfig"

definition LoadManifestFile :: "fs_env \<Rightarrow> Manifest \<Rightarrow> error + ManifestConfig" where
  "LoadManifestFile fs m =
     (case Manifest_Validate m of
        Some err \<Rightarrow> Inl (Wrap ''invalid manifest configuration'' err)
      | None \<Rightarrow>
     (case os_ReadFile fs (manifest_Path m) of
        Inl err \<Rightarrow> Inl (Wrap (''failed to read manifest file at '' @ manifest_Path m) err)
      | Inr configFile \<Rightarrow>
     (case yaml_Unmarshal fs configFile of
        Inl err \<Rightarrow> Inl (Wrap (''failed to unmarshal manifest file at '' @ manifest_Path m) err)
      | Inr pluginConfig \<Rightarrow>
     (case ManifestConfig_Validate (environment fs) (filepath_Abs fs) (random_name fs) pluginConfig of
        Some err \<Rightarrow> Inl (Wrap ''invalid manifest configuration'' err)
      | None \<Rightarrow> Inr pluginConfig))))"

definition LoadManifestInline :: "fs_env \<Rightarrow> Manifest \<Rightarrow> error + ManifestConfig" where
  "LoadManifestInline fs m =
     (case Manifest_Validate m of
        Some err \<Rightarrow> Inl (Wrap ''invalid manifest configuration'' err)
      | None \<Rightarrow>
     (case manifest_Config m of
        None \<Rightarrow> Inl (Panic ''nil pointer dereference'')
      | Some c \<Rightarrow>
     (case ManifestConfig_Validate (environment fs) (filepath_Abs fs) (random_name fs) c of
        Some err \<Rightarrow> Inl (Wrap ''invalid manifest configuration'' err)
      | None \<Rightarrow> Inr c)))"

text \<open>
  A panic unwinds through the callers: they hand it on unchanged and run none of their
  error handling.
\<close>

fun is_Panic :: "error \<Rightarrow> bool" where
  "is_Panic (Panic m) = True"
| "is_Panic e = False"

text \<open>
  \<open>LoadManifest\<close> takes the manifest of the configuration, a pointer (\<open>None\<close> when nil).
\<close>

definition LoadManifest :: "fs_env \<Rightarrow> Manifest option \<Rightarrow> error + ManifestConfig" where
  "LoadManifest fs mp =
     (case mp of
        None \<Rightarrow> Inl (Panic ''nil pointer dereference'')
      | Some m \<Rightarrow>
     (case Manifest_Validate m of
        Some err \<Rightarrow> Inl (Wrap ''invalid manifest configuration'' err)
      | None \<Rightarrow>
          (case (if manifest_Kind m = ''inline'' then LoadManifestInline fs m
                 else if manifest_Kind m = ''file'' then LoadManifestFile fs m
                 else Inl (ErrorNew (''manifest kind is not supported: '' @ manifest_Kind m))) of
             Inl err \<Rightarrow>
               if is_Panic err \<or> (manifest_Kind m \<noteq> ''inline'' \<and> manifest_Kind m \<noteq> ''file'') then Inl err
               else Inl (Wrap (''failed to load manifest of kind '' @ manifest_Kind m) err)
           | Inr result \<Rightarrow> Inr result)))"

section \<open>Plugin runner (package pluginrunner)\<close>

text \<open>
  \<open>Process\<close> is the pointer \<open>*os.Process\<close>: \<open>None\<close> when nil, otherwise the process with
  that pid. \<open>Server\<close> is a pointer as well.
\<close>

record PluginServerConf =
  Port :: int
  Process :: "int option"

record 'c LoadedPlugin =
  Plugin :: 'c
  Server :: "PluginServerConf option"

record PluginServerOptions =
  options_Port :: int
  options_KeyAndCert :: "KeyAndCert option"
  options_LoggerOptions :: "LoggerOptions option"
  options_PluginName :: string

text \<open>
  The configuration of the runner; \<open>'c\<close> is the caller's client type and
  \<open>PluginGenerator\<close> builds a client from a connection, which the model identifies with
  its target address and its TLS configuration.
\<close>

record ClientConn =
  target :: string
  credentials :: tls_Config

record 'c Config =
  config_Manifest :: "Manifest option"
  config_LoggerOptions :: "LoggerOptions option"
  PluginGenerator :: "ClientConn \<Rightarrow> 'c"

text \<open>
  What the runner does to the outside world is kept as a list of effects, oldest first:
  a started child process (pid, working directory, argument vector) and a
  \<open>syscall.Kill(-pid, SIGTERM)\<close> with the error it returned. The port manager is the
  object that \<open>LoadAll\<close> creates and shares with the registry.
\<close>

datatype effect =
    Started int string "string list"
  | Killed int "error option"

record world =
  portMgr :: PortManager
  effects :: "effect list"

text \<open>
  The outcome of one \<open>select\<close> in the readiness loop: the start-up context is done, the
  caller's context is done (each with the value of its \<open>Err()\<close>), or neither, in which
  case the dial is made and succeeds or fails.
\<close>

datatype poll = StartCtxDone error | CtxDone error | Dial bool

text \<open>
  What the environment answers while one plugin is loaded, and, for the whole load, the
  result of each kill given the effects so far, the order in which \<open>range\<close> visits a map
  of plugins, the decimal rendering of an integer, \<open>filepath.Join\<close>, and the label that
  \<open>generateRandomName\<close> draws for a plugin with neither name nor path.
\<close>

record 'c plugin_env =
  ctx_Done :: "error option"
  server_entropy :: entropy
  net_Listen :: "nat \<Rightarrow> int \<Rightarrow> bool"
  os_Getwd :: "error + string"
  cmd_Start :: "error + int"
  polls :: "poll list"
  client_entropy :: entropy
  grpc_NewClient :: "error option"

record 'c run_env =
  ca_entropy :: entropy
  plugin_envs :: "nat \<Rightarrow> 'c plugin_env"
  syscall_Kill :: "effect list \<Rightarrow> int \<Rightarrow> error option"
  range_order :: "(string \<times> 'c LoadedPlugin) list \<Rightarrow> (string \<times> 'c LoadedPlugin) list"
  strconv_Itoa :: "int \<Rightarrow> string"
  filepath_Join :: "string \<Rightarrow> string \<Rightarrow> string"
  generated_name :: string

definition startupTimeout :: int where
  "startupTimeout = 10"

definition kill_group :: "'c run_env \<Rightarrow> int \<Rightarrow> world \<Rightarrow> error option \<times> world" where
  "kill_group env pid w =
     (let r = syscall_Kill env (effects w) pid
      in (r, w\<lparr>effects := effects w @ [Killed pid r]\<rparr>))"

definition ToCliOptions ::
  "stdlib \<Rightarrow> (int \<Rightarrow> string) \<Rightarrow> PluginServerOptions \<Rightarrow> error + string list" where
  "ToCliOptions lib itoa options =
     (let opts = [];
          opts = (if options_Port options \<noteq> 0 then opts @ [''-port'', itoa (options_Port options)]
                  else opts)
      in case (case options_KeyAndCert options of
                 None \<Rightarrow> Inr opts
               | Some k \<Rightarrow>
                   (case Serialize lib k of
                      Inl err \<Rightarrow>
                        if is_Panic err then Inl err
                        else Inl (Wrap ''failed to serialize key and cert'' err)
                    | Inr keyAndCertBytes \<Rightarrow> Inr (opts @ [''-tls_key_and_cert'', keyAndCertBytes]))) of
           Inl err \<Rightarrow> Inl err
         | Inr opts \<Rightarrow>
             (let opts = (if options_PluginName options \<noteq> []
                          then opts @ [''-plugin_name'', options_PluginName options] else opts)
              in case options_LoggerOptions options of
                   None \<Rightarrow> Inr opts
                 | Some lo \<Rightarrow>
                     (case MarshalJSON lib lo of
                        Inl err \<Rightarrow> Inl (Wrap ''failed to marshal logger options'' err)
                      | Inr loggerOptsJSON \<Rightarrow> Inr (opts @ [''-logger_options'', loggerOptsJSON]))))"

text \<open>
  The readiness loop of \<open>buildAndRunPlugin\<close>. The start-up context has a deadline, so the
  loop ends: when the environment's answers run out, the deadline has passed.
\<close>

fun wait_ready ::
  "'c run_env \<Rightarrow> string \<Rightarrow> int \<Rightarrow> int \<Rightarrow> poll list \<Rightarrow> world
     \<Rightarrow> (error + PluginServerConf) \<times> world" where
  "wait_ready env name pid port [] w =
     (let (r, w') = kill_group env pid w
      in (Inl (Wrap (''plugin '' @ name @ '' failed to start within 10s'')
                 (External ''context deadline exceeded'')), w'))"
| "wait_ready env name pid port (StartCtxDone err # rest) w =
     (let (r, w') = kill_group env pid w
      in (Inl (Wrap (''plugin '' @ name @ '' failed to start within 10s'') err), w'))"
| "wait_ready env name pid port (CtxDone err # rest) w =
     (let (r, w') = kill_group env pid w
      in (Inl (Wrap ''context cancelled while waiting for plugin to start'' err), w'))"
| "wait_ready env name pid port (Dial ok # rest) w =
     (if ok then (Inr \<lparr>Port = port, Process = Some pid\<rparr>, w)
      else wait_ready env name pid port rest w)"

definition buildAndRunPlugin ::
  "stdlib \<Rightarrow> 'c run_env \<Rightarrow> 'c plugin_env \<Rightarrow> ManifestPlugin \<Rightarrow> PluginServerOptions \<Rightarrow> world
     \<Rightarrow> (error + PluginServerConf) \<times> world" where
  "buildAndRunPlugin lib env penv pluginConfig options w =
     (case os_Getwd penv of
        Inl err \<Rightarrow> (Inl (Wrap ''failed to get working directory'' err), w)
      | Inr wd \<Rightarrow>
     (case ToCliOptions lib (strconv_Itoa env) options of
        Inl err \<Rightarrow>
          (if is_Panic err then Inl err else Inl (Wrap ''failed to generate CLI options'' err), w)
      | Inr cliOptions \<Rightarrow>
          (let pluginPath = filepath_Join env wd (Path pluginConfig)
           in case cmd_Start penv of
                Inl err \<Rightarrow>
                  (Inl (Wrap (''failed to start plugin process at '' @ pluginPath) err), w)
              | Inr pid \<Rightarrow>
                  wait_ready env (fst (GetName (generated_name env) pluginConfig)) pid (options_Port options)
                    (polls penv)
                    (w\<lparr>effects := effects w @
                         [Started pid pluginPath
                            ([''/usr/bin/env'', ''go'', ''run'', ''./...''] @ cliOptions)]\<rparr>))))"

text \<open>\<open>startPluginServer\<close>: certificate, port, start; the port is released if the start fails.\<close>

definition startPluginServer ::
  "stdlib \<Rightarrow> 'c run_env \<Rightarrow> 'c plugin_env \<Rightarrow> ManifestPlugin \<Rightarrow> 'c Config \<Rightarrow> TransportGenerator
     \<Rightarrow> world \<Rightarrow> (error + PluginServerConf) \<times> world" where
  "startPluginServer lib env penv pluginConfig cfg transportGenerator w =
     (let name = fst (GetName (generated_name env) pluginConfig)
      in case GenerateKeyAndCert lib (server_entropy penv) transportGenerator name ''server'' of
           Inl err \<Rightarrow>
             (Inl (Wrap (''failed to generate server key and cert for plugin '' @ name) err), w)
         | Inr serverKeyAndCert \<Rightarrow>
        (case GetPort (net_Listen penv) (portMgr w) of
           (Inl err, pm) \<Rightarrow> (Inl (Wrap ''failed to get available port'' err), w\<lparr>portMgr := pm\<rparr>)
         | (Inr port, pm) \<Rightarrow>
             (let w1 = w\<lparr>portMgr := pm\<rparr>;
                  options = \<lparr>options_Port = port,
                             options_KeyAndCert = Some serverKeyAndCert,
                             options_LoggerOptions = config_LoggerOptions cfg,
                             options_PluginName = name\<rparr>;
                  (started, w2) =
                     (if Kind pluginConfig = ''build_and_run''
                      then buildAndRunPlugin lib env penv pluginConfig options w1
                      else (Inl (ErrorNew (''plugin kind is not supported: '' @ Kind pluginConfig)), w1))
              in case started of
                   Inl startErr \<Rightarrow>
                     if is_Panic startErr then (Inl startErr, w2)
                     else (Inl startErr,
                           w2\<lparr>portMgr := snd (ReleasePort port (portMgr w2))\<rparr>)
                 | Inr pluginServer \<Rightarrow> (Inr pluginServer, w2))))"

definition createPluginClient ::
  "stdlib \<Rightarrow> 'c run_env \<Rightarrow> 'c plugin_env \<Rightarrow> PluginServerConf \<Rightarrow> ManifestPlugin \<Rightarrow> 'c Config
     \<Rightarrow> TransportGenerator \<Rightarrow> error + 'c" where
  "createPluginClient lib env penv pluginServer pluginConfig cfg transportGenerator =
     (let name = fst (GetName (generated_name env) pluginConfig)
      in case GenerateKeyAndCert lib (client_entropy penv) transportGenerator
                (name @ ''_client'') ''client'' of
           Inl err \<Rightarrow>
             Inl (Wrap (''failed to generate client key and cert for plugin '' @ name) err)
         | Inr keyAndCert \<Rightarrow>
        (case GetTLSConfig keyAndCert of
           Inl err \<Rightarrow> Inl err
         | Inr clientTLSConfig \<Rightarrow>
             (let addr = ''localhost:'' @ strconv_Itoa env (Port pluginServer)
              in case grpc_NewClient penv of
                   Some err \<Rightarrow>
                     Inl (Wrap (''failed to create gRPC client for plugin '' @ name @ '' at '' @ addr) err)
                 | None \<Rightarrow>
                     Inr (PluginGenerator cfg \<lparr>target = addr, credentials = clientTLSConfig\<rparr>))))"

text \<open>\<open>LoadedPlugin.Close\<close>: the result is a panic, or the error of the call (or nil).\<close>

definition LoadedPlugin_Close ::
  "'c run_env \<Rightarrow> 'c LoadedPlugin \<Rightarrow> world \<Rightarrow> (error + error option) \<times> world" where
  "LoadedPlugin_Close env l w =
     (case Server l of
        None \<Rightarrow> (Inl (Panic ''nil pointer dereference''), w)
      | Some srv \<Rightarrow>
          (case Process srv of
             None \<Rightarrow> (Inr None, w)
           | Some pid \<Rightarrow>
               (case kill_group env pid w of
                  (Some err, w') \<Rightarrow>
                    (Inr (Some (Wrap ''failed to terminate plugin process'' err)), w')
                | (None, w') \<Rightarrow> (Inr None, w'))))"

definition LoadPlugin ::
  "stdlib \<Rightarrow> 'c run_env \<Rightarrow> 'c plugin_env \<Rightarrow> ManifestPlugin \<Rightarrow> TransportGenerator \<Rightarrow> 'c Config
     \<Rightarrow> world \<Rightarrow> (error + 'c LoadedPlugin) \<times> world" where
  "LoadPlugin lib env penv pluginConfig transportGenerator cfg w =
     (let name = fst (GetName (generated_name env) pluginConfig)
      in case startPluginServer lib env penv pluginConfig cfg transportGenerator w of
           (Inl err, w1) \<Rightarrow>
             (if is_Panic err then Inl err
              else Inl (Wrap (''failed to start server for plugin '' @ name) err), w1)
         | (Inr pluginServer, w1) \<Rightarrow>
             (case createPluginClient lib env penv pluginServer pluginConfig cfg transportGenerator of
                Inl err \<Rightarrow>
                  if is_Panic err then (Inl err, w1)
                  else (case Process pluginServer of
                          None \<Rightarrow> (Inl (Panic ''nil pointer dereference''), w1)
                        | Some pid \<Rightarrow>
                            (let (closeErr, w2) = kill_group env pid w1
                             in (Inl (Wrap (''failed to create client for plugin '' @ name) err), w2)))
              | Inr pluginClient \<Rightarrow>
                  (Inr \<lparr>Plugin = pluginClient, Server = Some pluginServer\<rparr>, w1)))"

section \<open>Registry (package pluginsloader)\<close>

text \<open>
  \<open>LoadedPlugins\<close>: the map from names to loaded plugins and the transport generator.
  The field \<open>portManager\<close> points to the port manager of the world; the logger and the
  lock are left out (the model runs one call at a time).
\<close>

record 'c LoadedPlugins =
  pluginsMap :: "(string \<times> 'c LoadedPlugin) list"
  TransportGenerator :: TransportGenerator

text \<open>
  The loop of \<open>Close\<close> over the copy of the map; \<open>lastErr\<close> is the variable of that name.
  The result is a panic or the final \<open>lastErr\<close>.
\<close>

fun close_loop ::
  "'c run_env \<Rightarrow> (string \<times> 'c LoadedPlugin) list \<Rightarrow> error option \<Rightarrow> world
     \<Rightarrow> (error + error option) \<times> world" where
  "close_loop env [] lastErr w = (Inr lastErr, w)"
| "close_loop env ((name, plugin) # rest) lastErr w =
     (case LoadedPlugin_Close env plugin w of
        (Inl p, w1) \<Rightarrow> (Inl p, w1)
      | (Inr closeErr, w1) \<Rightarrow>
          (let lastErr' = (case closeErr of Some err \<Rightarrow> Some err | None \<Rightarrow> lastErr);
               w2 = (case Server plugin of
                       None \<Rightarrow> w1
                     | Some srv \<Rightarrow>
                         if Port srv \<noteq> 0
                         then w1\<lparr>portMgr := snd (ReleasePort (Port srv) (portMgr w1))\<rparr>
                         else w1)
           in close_loop env rest lastErr' w2))"

text \<open>
  \<open>Close\<close>. The source copies \<open>l.pluginsMap\<close> into \<open>pluginsCopy\<close> under the lock and
  iterates over the copy; it assigns nothing to \<open>l.pluginsMap\<close>. The registry is returned
  with the result to show its state after the call.
\<close>

definition LoadedPlugins_Close ::
  "'c run_env \<Rightarrow> 'c LoadedPlugins \<Rightarrow> world \<Rightarrow> (error option \<times> 'c LoadedPlugins) \<times> world" where
  "LoadedPlugins_Close env l w =
     (let pluginsCopy = pluginsMap l
      in case close_loop env (range_order env pluginsCopy) None w of
           (Inl p, w') \<Rightarrow> ((Some p, l), w')
         | (Inr (Some lastErr), w') \<Rightarrow>
             ((Some (Wrap ''failed to close one or more plugins'' lastErr), l), w')
         | (Inr None, w') \<Rightarrow> ((None, l), w'))"

text \<open>
  The loop of \<open>LoadAll\<close> over the plugins of the manifest; \<open>i\<close> counts the iterations. It
  returns \<open>loadErr\<close> (or a panic) with the registry as filled so far.
\<close>

fun load_loop ::
  "stdlib \<Rightarrow> 'c run_env \<Rightarrow> 'c Config \<Rightarrow> TransportGenerator \<Rightarrow> nat \<Rightarrow> ManifestPlugin list
     \<Rightarrow> 'c LoadedPlugins \<Rightarrow> world \<Rightarrow> (error option \<times> 'c LoadedPlugins) \<times> world" where
  "load_loop lib env cfg tg i [] plugins w = ((None, plugins), w)"
| "load_loop lib env cfg tg i (pluginConfig # rest) plugins w =
     (let penv = plugin_envs env i;
          name = fst (GetName (generated_name env) pluginConfig)
      in case ctx_Done penv of
           Some ctxErr \<Rightarrow> ((Some (Wrap ''plugin loading cancelled'' ctxErr), plugins), w)
         | None \<Rightarrow>
             (case LoadPlugin lib env penv (snd (GetName (generated_name env) pluginConfig)) tg cfg w of
                (Inl err, w') \<Rightarrow>
                  (if is_Panic err then ((Some err, plugins), w')
                   else ((Some (Wrap (''failed to load plugin '' @ name) err), plugins), w'))
              | (Inr plugin, w') \<Rightarrow>
                  load_loop lib env cfg tg (i + 1) rest
                    (plugins\<lparr>pluginsMap := map_assign (pluginsMap plugins) name plugin\<rparr>) w'))"

text \<open>
  \<open>LoadAll\<close> returns the registry or an error, never both; the model adds the world as
  the call leaves it. The deferred function closes the registry when \<open>loadErr\<close> is set;
  a panic leaves \<open>loadErr\<close> nil.
\<close>

definition LoadAll ::
  "stdlib \<Rightarrow> fs_env \<Rightarrow> 'c run_env \<Rightarrow> 'c Config
     \<Rightarrow> ('c LoadedPlugins option \<times> error option) \<times> world" where
  "LoadAll lib fs env cfg =
     (let w0 = \<lparr>portMgr = New, effects = []\<rparr>
      in case LoadManifest fs (config_Manifest cfg) of
           Inl err \<Rightarrow>
             ((None, Some (if is_Panic err then err
                           else Wrap ''failed to load plugin manifest'' err)), w0)
         | Inr pluginConfig \<Rightarrow>
        (case NewTransportGenerator lib (ca_entropy env) (TLS pluginConfig) of
           Inl err \<Rightarrow> ((None, Some (Wrap ''failed to create transport generator'' err)), w0)
         | Inr transportGenerator \<Rightarrow>
             (let plugins = \<lparr>pluginsMap = [], TransportGenerator = transportGenerator\<rparr>
              in case load_loop lib env cfg transportGenerator 0 (Plugins pluginConfig) plugins w0 of
                   ((Some loadErr, plugins'), w1) \<Rightarrow>
                     if is_Panic loadErr then ((None, Some loadErr), w1)
                     else (let ((closeErr, plugins''), w2) = LoadedPlugins_Close env plugins' w1
                           in ((None, Some loadErr), w2))
                 | ((None, plugins'), w1) \<Rightarrow> ((Some plugins', None), w1))))"

section \<open>Plugin stub (package plugin)\<close>

text \<open>
  The default \<open>slog\<close> logger of a Go process writes to standard error and passes records
  from level Info up. \<open>parseAndSetLoggerOptions\<close> replaces it by a text or JSON handler on
  standard output with the level of the options.
\<close>

datatype Sink = Stderr | Stdout

datatype HandlerKind = DefaultHandler | TextHandler | JSONHandler

record Logger =
  sink :: Sink
  handler :: HandlerKind
  min_level :: int
  with_attrs :: "Attr list"





text \<open>The errors of \<open>FlagSet.parseOne\<close>: \<open>ErrHelp\<close> and the four that \<open>failf\<close> builds.\<close>

datatype flag_error =
    ErrHelp
  | BadFlagSyntax string
  | NotDefined string
  | NeedsArgument string
  | InvalidValue string string





text \<open>What the stub does, oldest first: log records that pass the level, and its calls.\<close>

datatype stub_event =
    LogRecord Sink int string
  | FlagReport flag_error
  | SignalNotify
  | Listening int
  | PluginStart
  | Serve
  | GracefulStop
  | Stop

definition emit :: "Logger \<Rightarrow> int \<Rightarrow> string \<Rightarrow> stub_event list \<Rightarrow> stub_event list" where
  "emit lg level msg tr = (if min_level lg \<le> level then tr @ [LogRecord (sink lg) level msg] else tr)"







definition shutdownTimeout :: int where
  "shutdownTimeout = 5"



section \<open>A sample library and environment\<close>

text \<open>
  The examples below run the model on concrete inputs. \<open>sample_lib\<close> stands in for the Go
  library there. On the credential strings \<open>""\<close> and \<open>"{}"\<close> and on the logger-option
  documents defined here it gives the results of the Go library; certificates, keys and
  base64 are replaced by simple encodings that round-trip (a certificate is the text
  \<open>DER:\<close> followed by its common name, base64 is the identity).
\<close>

definition sample_key :: PrivateKey where
  "sample_key = RSAPrivateKey 3233 17 413 [61, 53]"

definition sample_cert :: "bytes \<Rightarrow> Certificate" where
  "sample_cert b =
     \<lparr>Raw = b, SerialNumber = 7, CommonName = drop 4 b, Organization = [''GRPC_Plugins''],
      NotBefore = 0, NotAfter = 31536000, KeyUsage = [KeyUsageDigitalSignature],
      ExtKeyUsage = [], BasicConstraintsValid = False, IsCA = False,
      DNSNames = [], IPAddresses = []\<rparr>"

definition render_KeyAndCert :: "KeyAndCertSerialized \<Rightarrow> bytes" where
  "render_KeyAndCert s =
     ''{\"cert_bytes\":\"'' @ cert_bytes s @ ''\",\"ca_cert_bytes\":\"'' @ ca_cert_bytes s
       @ ''\",\"private_key_pkcs1\":\"'' @ private_key_pkcs1 s @ ''\",\"cn\":\"'' @ cn s @ ''\"}''"

text \<open>The serialized credentials of the examples: for the subjects \<open>alpha\<close> and \<open>p\<close>.\<close>

definition sample_serialized :: "string \<Rightarrow> KeyAndCertSerialized" where
  "sample_serialized subject =
     \<lparr>cert_bytes = ''DER:'' @ subject, ca_cert_bytes = ''DER:'',
      private_key_pkcs1 = ''PKCS1:sample'', cn = subject\<rparr>"

text \<open>
  Three logger options: the ones of the example runner (a string attribute), one with the
  same key twice, and one with an integer attribute; with the documents that
  \<open>json.Marshal\<close> writes for them (keys sorted) and the values \<open>json.Unmarshal\<close> reads back.
\<close>

definition options_runner :: LoggerOptions where
  "options_runner =
     \<lparr>Type = ''text'', Level = Some 0, Attributes = [(''run by'', StringValue ''runner'')]\<rparr>"

definition options_twice :: LoggerOptions where
  "options_twice =
     \<lparr>Type = ''text'', Level = None,
      Attributes = [(''a'', StringValue ''x''), (''a'', StringValue ''y'')]\<rparr>"

definition options_int :: LoggerOptions where
  "options_int = \<lparr>Type = ''text'', Level = None, Attributes = [(''n'', Int64Value 1)]\<rparr>"

text \<open>
  Two more: a level of \<open>2^53 + 1\<close>, which no \<open>float64\<close> represents (the decoder reads
  \<open>2^53\<close>), and a type that is the single byte \<open>0xFF\<close>, not valid UTF-8 (the encoder
  writes the escape of U+FFFD for it, which decodes to the three bytes \<open>EF BF BD\<close>).
\<close>

definition options_level :: LoggerOptions where
  "options_level = \<lparr>Type = ''text'', Level = Some 9007199254740993, Attributes = []\<rparr>"

definition options_byte :: LoggerOptions where
  "options_byte = \<lparr>Type = [CHR 0xFF], Level = None, Attributes = []\<rparr>"

definition doc_level :: bytes where
  "doc_level = ''{\"attributes\":{},\"level\":9007199254740993,\"type\":\"text\"}''"

definition doc_byte :: bytes where
  "doc_byte = ''{\"attributes\":{},\"type\":\"'' @ [CHR 0x5C] @ ''ufffd\"}''"

definition doc_runner :: bytes where
  "doc_runner = ''{\"attributes\":{\"run by\":\"runner\"},\"level\":0,\"type\":\"text\"}''"

definition doc_twice :: bytes where
  "doc_twice = ''{\"attributes\":{\"a\":\"y\"},\"type\":\"text\"}''"

definition doc_int :: bytes where
  "doc_int = ''{\"attributes\":{\"n\":1},\"type\":\"text\"}''"

text \<open>
  Logger options for the stub with a level above error: \<open>slog.LevelError + 4\<close>.
\<close>

definition doc_quiet :: bytes where
  "doc_quiet = ''{\"level\":12,\"type\":\"text\"}''"

definition sample_lib :: stdlib where
  "sample_lib =
     \<lparr>x509_CreateCertificate = (\<lambda>template parent pub priv. Inr (''DER:'' @ CommonName template)),
      x509_ParseCertificate =
        (\<lambda>b. if HasPrefix b ''DER:'' then Inr (sample_cert b)
             else Inl (External ''x509: malformed certificate'')),
      x509_MarshalPKCS1PrivateKey =
        (\<lambda>k. if k = sample_key then ''PKCS1:sample'' else ''PKCS1:other''),
      x509_ParsePKCS1PrivateKey =
        (\<lambda>b. if b = ''PKCS1:sample'' then Inr sample_key
             else Inl (External ''asn1: syntax error: sequence truncated'')),
      base64_EncodeToString = (\<lambda>b. b),
      base64_DecodeString = (\<lambda>s. Inr s),
      json_Marshal_KeyAndCert =
        (\<lambda>s. if s = sample_serialized ''alpha'' \<or> s = sample_serialized ''p''
               then Inr (render_KeyAndCert s)
             else Inl (External ''json: unsupported value'')),
      json_Unmarshal_KeyAndCert =
        (\<lambda>d. if d = ''{}''
               then Inr \<lparr>cert_bytes = [], ca_cert_bytes = [], private_key_pkcs1 = [], cn = []\<rparr>
             else if d = render_KeyAndCert (sample_serialized ''alpha'')
               then Inr (sample_serialized ''alpha'')
             else if d = render_KeyAndCert (sample_serialized ''p'')
               then Inr (sample_serialized ''p'')
             else Inl (External ''unexpected end of JSON input'')),
      json_Marshal =
        (\<lambda>v. if v = AMap (marshal_data options_runner) then Inr doc_runner
             else if v = AMap (marshal_data options_twice) then Inr doc_twice
             else if v = AMap (marshal_data options_int) then Inr doc_int
             else if v = AMap (marshal_data options_level) then Inr doc_level
             else if v = AMap (marshal_data options_byte) then Inr doc_byte
             else Inl (External ''json: unsupported value'')),
      json_Unmarshal =
        (\<lambda>d. if d = ''{}'' then Inr (AMap [])
             else if d = doc_runner
               then Inr (AMap [(''type'', AString ''text''), (''level'', AFloat64 0),
                               (''attributes'', AMap [(''run by'', AString ''runner'')])])
             else if d = doc_twice
               then Inr (AMap [(''type'', AString ''text''),
                               (''attributes'', AMap [(''a'', AString ''y'')])])
             else if d = doc_int
               then Inr (AMap [(''type'', AString ''text''),
                               (''attributes'', AMap [(''n'', AFloat64 1)])])
             else if d = doc_level
               then Inr (AMap [(''type'', AString ''text''),
                               (''level'', AFloat64 9007199254740992),
                               (''attributes'', AMap [])])
             else if d = doc_byte
               then Inr (AMap [(''type'', AString [CHR 0xEF, CHR 0xBF, CHR 0xBD]),
                               (''attributes'', AMap [])])
             else if d = doc_quiet
               then Inr (AMap [(''type'', AString ''text''), (''level'', AFloat64 12)])
             else Inl (External ''unexpected end of JSON input'')),
      time_AddDate = (\<lambda>years months days t. t + years * 31536000)\<rparr>"

text \<open>The order of a map iteration that follows the list.\<close>

definition list_order :: "('k \<times> 'v) list \<Rightarrow> ('k \<times> 'v) list" where
  "list_order m = m"

definition sample_entropy :: entropy where
  "sample_entropy =
     \<lparr>rsa_GenerateKey = Inr sample_key, rand_Int = Inr 7, time_Now1 = 1, time_Now2 = 1\<rparr>"

text \<open>The authority and the credentials that the sample library issues.\<close>

definition sample_ca :: PrivateCA where
  "sample_ca =
     \<lparr>ca_PrivateKey = sample_key, ca_Cert = sample_cert ''DER:'', ca_CertBytes = ''DER:''\<rparr>"

definition sample_credential :: "string \<Rightarrow> KeyAndCert" where
  "sample_credential subject =
     \<lparr>CN = subject, Key = Some sample_key,
      CACert = Some (sample_cert ''DER:''), CACertBytes = ''DER:'',
      Cert = Some (sample_cert (''DER:'' @ subject)), CertBytes = ''DER:'' @ subject\<rparr>"

text \<open>
  The operating system of the examples: a process group that was sent SIGTERM has exited
  and been reaped, so that a second signal to it fails with ESRCH.
\<close>

definition kill_once :: "effect list \<Rightarrow> int \<Rightarrow> error option" where
  "kill_once done pid =
     (if Killed pid None \<in> set done then Some (External ''no such process'') else None)"

text \<open>
  One plugin that starts and answers the second dial; \<open>client_result\<close> is what
  \<open>grpc.NewClient\<close> returns for it.
\<close>

definition sample_plugin_env :: "error option \<Rightarrow> string plugin_env" where
  "sample_plugin_env client_result =
     \<lparr>ctx_Done = None, server_entropy = sample_entropy, net_Listen = all_free,
      os_Getwd = Inr ''/work'', cmd_Start = Inr 4242, polls = [Dial False, Dial True],
      client_entropy = sample_entropy, grpc_NewClient = client_result\<rparr>"

definition sample_run_env :: "error option \<Rightarrow> string run_env" where
  "sample_run_env client_result =
     \<lparr>ca_entropy = sample_entropy,
      plugin_envs = (\<lambda>i. sample_plugin_env client_result),
      syscall_Kill = kill_once,
      range_order = list_order,
      strconv_Itoa = (\<lambda>n. if n = 40000 then ''40000'' else ''0''),
      filepath_Join = (\<lambda>dir elem. dir @ ''/'' @ elem),
      generated_name = ''plugin_AAAAAAAA''\<rparr>"

definition sample_fs :: fs_env where
  "sample_fs =
     \<lparr>environment = Map.empty,
      filepath_Abs = (\<lambda>path. Inr (''/work/'' @ path)),
      random_name = ''plugin_AAAAAAAA'',
      os_ReadFile = (\<lambda>path. Inl (External ''no such file or directory'')),
      yaml_Unmarshal = (\<lambda>b. Inl (External ''yaml: unmarshal errors''))\<rparr>"

text \<open>
  The configuration of the examples: an inline manifest with the single plugin \<open>./p\<close>, no
  logger options, and a client that is the address it is connected to.
\<close>

definition sample_config :: "string Config" where
  "sample_config =
     \<lparr>config_Manifest =
        Some \<lparr>manifest_Kind = ''inline'', manifest_Path = [],
              manifest_Config =
                Some \<lparr>Plugins = [\<lparr>Name = [], Path = ''./p'', Kind = ''build_and_run''\<rparr>],
                      TLS = \<lparr>UseCustomTLS = False\<rparr>\<rparr>\<rparr>,
      config_LoggerOptions = None,
      PluginGenerator = target\<rparr>"



text \<open>
  Two loads of that configuration. In \<open>failed_load\<close> the plugin starts and becomes ready
  and \<open>grpc.NewClient\<close> then returns an error. In \<open>good_load\<close> everything succeeds; the
  registry it returns is then closed twice.
\<close>

definition failed_load :: "(string LoadedPlugins option \<times> error option) \<times> world" where
  "failed_load =
     LoadAll sample_lib sample_fs
       (sample_run_env (Some (External ''grpc: failed to create client''))) sample_config"

definition good_load :: "(string LoadedPlugins option \<times> error option) \<times> world" where
  "good_load = LoadAll sample_lib sample_fs (sample_run_env None) sample_config"

definition sample_registry :: "string LoadedPlugins" where
  "sample_registry =
     \<lparr>pluginsMap =
        [(''p'', \<lparr>Plugin = ''localhost:40000'',
                  Server = Some \<lparr>Port = 40000, Process = Some 4242\<rparr>\<rparr>)],
      TransportGenerator = \<lparr>gen_ca = Some sample_ca, gen_cfg = \<lparr>UseCustomTLS = False\<rparr>\<rparr>\<rparr>"

definition first_close :: "(error option \<times> string LoadedPlugins) \<times> world" where
  "first_close = LoadedPlugins_Close (sample_run_env None) sample_registry (snd good_load)"

definition second_close :: "(error option \<times> string LoadedPlugins) \<times> world" where
  "second_close =
     LoadedPlugins_Close (sample_run_env None) (snd (fst first_close)) (snd first_close)"

section \<open>Properties of the port manager\<close>

subsection \<open>The acquisition loop\<close>

declare GetPort_loop.simps [simp del]

lemma GetPort_loop_exit:
  "\<not> a < maxAttempts \<Longrightarrow> GetPort_loop listen a pm = (Inl (PortExhausted maxAttempts), pm)"
  by (simp add: GetPort_loop.simps [of listen a pm])

lemma GetPort_loop_step:
  "a < maxAttempts \<Longrightarrow>
   GetPort_loop listen a pm =
     (let c = advance (lastAssigned pm); pm2 = pm\<lparr>lastAssigned := c\<rparr>
      in if c \<in> usedPorts pm \<or> \<not> listen a c then GetPort_loop listen (a + 1) pm2
         else (Inr c, pm2\<lparr>usedPorts := insert c (usedPorts pm)\<rparr>))"
  by (simp add: GetPort_loop.simps [of listen a pm] advance_def Let_def)

lemma GetPort_loop_cases [case_names loop]:
  fixes P :: "nat \<Rightarrow> PortManager \<Rightarrow> bool"
  assumes step: "\<And>a pm. (a < maxAttempts \<Longrightarrow> P (a + 1) (pm\<lparr>lastAssigned := advance (lastAssigned pm)\<rparr>))
             \<Longrightarrow> P a pm"
  shows "P a0 pm0"
proof -
  have "\<forall>a pm. n = maxAttempts - a \<longrightarrow> P a pm" for n
  proof (induction n)
    case 0
    show ?case
    proof (intro allI impI)
      fix a :: nat and pm :: PortManager
      assume "0 = maxAttempts - a"
      then have "\<not> a < maxAttempts" by simp
      then show "P a pm" by (rule_tac step) simp
    qed
  next
    case (Suc n)
    show ?case
    proof (intro allI impI)
      fix a :: nat and pm :: PortManager
      assume "Suc n = maxAttempts - a"
      then have "n = maxAttempts - (a + 1)" by simp
      with Suc have "P (a + 1) (pm\<lparr>lastAssigned := advance (lastAssigned pm)\<rparr>)" by blast
      then show "P a pm" by (rule_tac step)
    qed
  qed
  then show ?thesis by blast
qed

lemma GetPort_loop_Inr:
  "GetPort_loop listen a pm = (Inr p, pm') \<Longrightarrow>
     p \<notin> usedPorts pm \<and> usedPorts pm' = insert p (usedPorts pm) \<and> lastAssigned pm' = p"
proof (induction a pm rule: GetPort_loop_cases)
  case (loop a pm)
  show ?case
  proof (cases "a < maxAttempts")
    case True
    with loop show ?thesis
      by (auto simp: GetPort_loop_step Let_def split: if_splits)
  next
    case False
    with loop.prems show ?thesis by (simp add: GetPort_loop_exit)
  qed
qed

lemma GetPort_loop_Inl:
  "GetPort_loop listen a pm = (Inl e, pm') \<Longrightarrow>
     e = PortExhausted maxAttempts \<and> usedPorts pm' = usedPorts pm"
proof (induction a pm rule: GetPort_loop_cases)
  case (loop a pm)
  show ?case
  proof (cases "a < maxAttempts")
    case True
    with loop show ?thesis
      by (auto simp: GetPort_loop_step Let_def split: if_splits)
  next
    case False
    with loop.prems show ?thesis by (simp add: GetPort_loop_exit)
  qed
qed

lemma advance_range:
  "minPort - 1 \<le> l \<Longrightarrow> l \<le> maxPort \<Longrightarrow> minPort \<le> advance l \<and> advance l \<le> maxPort"
  by (simp add: advance_def minPort_def maxPort_def)

lemma GetPort_loop_range:
  "GetPort_loop listen a pm = (r, pm') \<Longrightarrow> cursor_ok pm \<Longrightarrow>
     cursor_ok pm' \<and> (\<forall>p. r = Inr p \<longrightarrow> minPort \<le> p \<and> p \<le> maxPort)"
proof (induction a pm rule: GetPort_loop_cases)
  case (loop a pm)
  from loop.prems(2) have adv: "minPort \<le> advance (lastAssigned pm)" "advance (lastAssigned pm) \<le> maxPort"
    using advance_range [of "lastAssigned pm"] by (simp_all add: cursor_ok_def)
  show ?case
  proof (cases "a < maxAttempts")
    case True
    with loop adv show ?thesis
      by (auto simp: GetPort_loop_step Let_def cursor_ok_def split: if_splits)
  next
    case False
    with loop.prems show ?thesis by (auto simp add: GetPort_loop_exit)
  qed
qed

lemma GetPort_loop_cong:
  "(\<forall>k<maxAttempts. l1 k = l2 k) \<Longrightarrow> GetPort_loop l1 a pm = GetPort_loop l2 a pm"
proof (induction a pm rule: GetPort_loop_cases)
  case (loop a pm)
  show ?case
  proof (cases "a < maxAttempts")
    case True
    with loop show ?thesis
      by (simp add: GetPort_loop_step Let_def)
  next
    case False
    then show ?thesis by (simp add: GetPort_loop_exit)
  qed
qed

lemma candidate_Suc:
  "candidate (pm\<lparr>lastAssigned := advance (lastAssigned pm)\<rparr>) k = candidate pm (Suc k)"
  by (simp add: candidate_def funpow_swap1)

lemma candidate_0: "candidate pm 0 = advance (lastAssigned pm)"
  by (simp add: candidate_def)

lemma GetPort_loop_fail_iff:
  "fst (GetPort_loop listen a pm) = Inl (PortExhausted maxAttempts) \<longleftrightarrow>
     (\<forall>k. a + k < maxAttempts \<longrightarrow>
        candidate pm k \<in> usedPorts pm \<or> \<not> listen (a + k) (candidate pm k))"
proof (induction a pm rule: GetPort_loop_cases)
  case (loop a pm)
  show ?case
  proof (cases "a < maxAttempts")
    case False
    then show ?thesis by (simp add: GetPort_loop_exit)
  next
    case True
    let ?c = "advance (lastAssigned pm)"
    let ?pm2 = "pm\<lparr>lastAssigned := ?c\<rparr>"
    have split: "(\<forall>k. a + k < maxAttempts \<longrightarrow> Q k) \<longleftrightarrow>
        Q 0 \<and> (\<forall>k. a + 1 + k < maxAttempts \<longrightarrow> Q (Suc k))" for Q
    proof
      assume h: "\<forall>k. a + k < maxAttempts \<longrightarrow> Q k"
      show "Q 0 \<and> (\<forall>k. a + 1 + k < maxAttempts \<longrightarrow> Q (Suc k))"
        using h True by auto
    next
      assume h: "Q 0 \<and> (\<forall>k. a + 1 + k < maxAttempts \<longrightarrow> Q (Suc k))"
      show "\<forall>k. a + k < maxAttempts \<longrightarrow> Q k"
      proof (intro allI impI)
        fix k assume "a + k < maxAttempts"
        then show "Q k" using h by (cases k) auto
      qed
    qed
    show ?thesis
    proof (cases "?c \<in> usedPorts pm \<or> \<not> listen a ?c")
      case bad: True
      then have "GetPort_loop listen a pm = GetPort_loop listen (a + 1) ?pm2"
        using True by (simp add: GetPort_loop_step Let_def)
      with loop [OF True] bad show ?thesis
        by (subst split) (simp add: candidate_Suc candidate_0)
    next
      case good: False
      then have "fst (GetPort_loop listen a pm) = Inr ?c"
        using True by (simp add: GetPort_loop_step Let_def)
      with good show ?thesis
        by (subst split) (simp add: candidate_0)
    qed
  qed
qed


lemma GetPort_Inr:
  "GetPort listen pm = (Inr p, pm') \<Longrightarrow>
     p \<notin> usedPorts pm \<and> usedPorts pm' = insert p (usedPorts pm)"
  unfolding GetPort_def by (drule GetPort_loop_Inr) simp

lemma GetPort_Inl:
  "GetPort listen pm = (Inl e, pm') \<Longrightarrow>
     e = PortExhausted maxAttempts \<and> usedPorts pm' = usedPorts pm"
  unfolding GetPort_def by (rule GetPort_loop_Inl)

lemma port_step_held:
  assumes "port_step pm op = (ev, pm')"
  shows "usedPorts pm' = apply_event (usedPorts pm) ev
         \<and> (\<forall>p. ev = Acquired p \<longrightarrow> p \<notin> usedPorts pm)"
proof (cases op)
  case (OpGetPort listen)
  obtain r pm1 where g: "GetPort listen pm = (r, pm1)" by (cases "GetPort listen pm")
  show ?thesis
  proof (cases r)
    case (Inl e)
    from g Inl have "usedPorts pm1 = usedPorts pm" using GetPort_Inl [of listen pm e pm1] by simp
    moreover from g Inl OpGetPort assms have "ev = AcquireFailed e" "pm' = pm1" by simp_all
    ultimately show ?thesis by simp
  next
    case (Inr p)
    from g Inr have "p \<notin> usedPorts pm" "usedPorts pm1 = insert p (usedPorts pm)"
      using GetPort_Inr [of listen pm p pm1] by simp_all
    moreover from g Inr OpGetPort assms have "ev = Acquired p" "pm' = pm1" by simp_all
    ultimately show ?thesis by simp
  qed
next
  case (OpReleasePort p)
  show ?thesis
  proof (cases "p < minPort \<or> p > maxPort")
    case True
    with OpReleasePort assms have "ev = ReleaseRejected (InvalidArgument p)" "pm' = pm"
      by (simp_all add: ReleasePort_def)
    then show ?thesis by simp
  next
    case False
    with OpReleasePort assms have "ev = Released p" "pm' = pm\<lparr>usedPorts := usedPorts pm - {p}\<rparr>"
      by (simp_all add: ReleasePort_def)
    then show ?thesis by simp
  qed
qed

lemma run_ops_held:
  "run_ops pm ops = (pre @ Acquired p # post, pm') \<Longrightarrow>
     p \<notin> foldl apply_event (usedPorts pm) pre"
proof (induction ops arbitrary: pm pre)
  case Nil
  then show ?case by simp
next
  case (Cons op ops)
  obtain ev pm1 where st: "port_step pm op = (ev, pm1)" by (cases "port_step pm op")
  obtain evs pm2 where rn: "run_ops pm1 ops = (evs, pm2)" by (cases "run_ops pm1 ops")
  from Cons.prems st rn have evs: "ev # evs = pre @ Acquired p # post" and "pm2 = pm'" by simp_all
  note h = port_step_held [OF st]
  show ?case
  proof (cases pre)
    case Nil
    with evs have "ev = Acquired p" by simp
    with h Nil show ?thesis by simp
  next
    case (Cons e pre')
    with evs have "e = ev" and "evs = pre' @ Acquired p # post" by simp_all
    with rn \<open>pm2 = pm'\<close> have "run_ops pm1 ops = (pre' @ Acquired p # post, pm')" by simp
    from Cons.IH [OF this] h Cons \<open>e = ev\<close> show ?thesis by simp
  qed
qed

lemma port_step_cursor:
  assumes "port_step pm op = (ev, pm')" and "cursor_ok pm"
  shows "cursor_ok pm' \<and> (\<forall>p. ev = Acquired p \<longrightarrow> minPort \<le> p \<and> p \<le> maxPort)"
proof (cases op)
  case (OpGetPort listen)
  obtain r pm1 where g: "GetPort_loop listen 0 pm = (r, pm1)" by (cases "GetPort_loop listen 0 pm")
  from GetPort_loop_range [OF g assms(2)] g OpGetPort assms(1) show ?thesis
    by (auto simp: GetPort_def split: sum.splits)
next
  case (OpReleasePort p)
  with assms show ?thesis
    by (auto simp: ReleasePort_def cursor_ok_def split: if_splits)
qed

lemma run_ops_range:
  "run_ops pm ops = (evs, pm') \<Longrightarrow> cursor_ok pm \<Longrightarrow> Acquired p \<in> set evs \<Longrightarrow>
     minPort \<le> p \<and> p \<le> maxPort"
proof (induction ops arbitrary: pm evs pm')
  case Nil
  then show ?case by simp
next
  case (Cons op ops)
  obtain ev pm1 where st: "port_step pm op = (ev, pm1)" by (cases "port_step pm op")
  obtain evs1 pm2 where rn: "run_ops pm1 ops = (evs1, pm2)" by (cases "run_ops pm1 ops")
  from Cons.prems(1) st rn have evs: "evs = ev # evs1" by auto
  note h = port_step_cursor [OF st Cons.prems(2)]
  from Cons.prems(3) evs consider "ev = Acquired p" | "Acquired p \<in> set evs1" by auto
  then show ?case
  proof cases
    case 1
    with h show ?thesis by simp
  next
    case 2
    from Cons.IH [OF rn _ 2] h show ?thesis by simp
  qed
qed

lemma cursor_ok_New: "cursor_ok New"
  by (simp add: cursor_ok_def New_def minPort_def maxPort_def)

lemma GetPort_loop_hit:
  assumes "a < maxAttempts" and "advance (lastAssigned pm) \<notin> usedPorts pm"
    and "listen a (advance (lastAssigned pm))"
  shows "GetPort_loop listen a pm =
           (Inr (advance (lastAssigned pm)),
            \<lparr>usedPorts = insert (advance (lastAssigned pm)) (usedPorts pm),
             lastAssigned = advance (lastAssigned pm)\<rparr>)"
  using assms by (simp add: GetPort_loop_step Let_def)

lemma GetPort_all_free:
  assumes "lastAssigned pm < maxPort" and "\<forall>q\<in>usedPorts pm. q \<le> lastAssigned pm"
  shows "GetPort all_free pm =
           (Inr (lastAssigned pm + 1),
            \<lparr>usedPorts = insert (lastAssigned pm + 1) (usedPorts pm),
             lastAssigned = lastAssigned pm + 1\<rparr>)"
proof -
  have "advance (lastAssigned pm) = lastAssigned pm + 1"
    using assms(1) by (simp add: advance_def)
  moreover have "lastAssigned pm + 1 \<notin> usedPorts pm"
    using assms(2) by auto
  ultimately show ?thesis
    using GetPort_loop_hit [of 0 pm all_free]
    by (simp add: GetPort_def maxAttempts_def all_free_def)
qed

lemma run_ops_all_free:
  "lastAssigned pm + int n \<le> maxPort \<Longrightarrow> \<forall>q\<in>usedPorts pm. q \<le> lastAssigned pm \<Longrightarrow>
   fst (run_ops pm (replicate n (OpGetPort all_free))) =
     map (\<lambda>i. Acquired (lastAssigned pm + 1 + int i)) [0..<n]"
proof (induction n arbitrary: pm)
  case 0
  then show ?case by simp
next
  case (Suc n)
  let ?pm1 = "\<lparr>usedPorts = insert (lastAssigned pm + 1) (usedPorts pm),
             lastAssigned = lastAssigned pm + 1\<rparr>"
  from Suc.prems have g: "GetPort all_free pm = (Inr (lastAssigned pm + 1), ?pm1)"
    by (intro GetPort_all_free) auto
  have "fst (run_ops ?pm1 (replicate n (OpGetPort all_free))) =
     map (\<lambda>i. Acquired (lastAssigned ?pm1 + 1 + int i)) [0..<n]"
    using Suc.prems by (intro Suc.IH) auto
  with g show ?case
    by (simp add: split_beta map_upt_Suc add.assoc del: upt_Suc)
qed


subsection \<open>Range, leases and the attempt bound\<close>

text \<open>
  C5, as the specification states it, gives the half-open range \<open>[40000, 50000)\<close> for the
  ports \<open>GetPort\<close> returns and for the ports \<open>ReleasePort\<close> accepts. The code compares
  with \<open>> maxPort\<close> in both places, so port 50000 belongs to the range: the 10001st
  acquisition in a row (every bind test succeeding, nothing released) returns 50000, and
  \<open>ReleasePort 50000\<close> is accepted.
\<close>

theorem GetPort_half_open_counterexample:
  "fst (run_ops New (replicate 10001 (OpGetPort all_free))) ! 10000 = Acquired 50000
   \<and> \<not> (50000 < (50000::int))
   \<and> fst (ReleasePort 50000 New) = None"
proof -
  have "fst (run_ops New (replicate 10001 (OpGetPort all_free))) =
          map (\<lambda>i. Acquired (lastAssigned New + 1 + int i)) [0..<10001]"
    by (rule run_ops_all_free) (simp_all add: New_def minPort_def maxPort_def)
  then have "fst (run_ops New (replicate 10001 (OpGetPort all_free))) ! 10000
      = Acquired (lastAssigned New + 1 + int (0 + 10000))"
    by (simp only: nth_map_upt)
  then have "fst (run_ops New (replicate 10001 (OpGetPort all_free))) ! 10000 = Acquired 50000"
    by (simp add: New_def minPort_def)
  moreover have "fst (ReleasePort 50000 New) = None"
    by (simp add: ReleasePort_def minPort_def maxPort_def)
  ultimately show ?thesis by simp
qed

text \<open>
  C5, amended. Every port returned by \<open>GetPort\<close>, in any sequence of calls on a fresh
  manager, lies in the closed range \<open>[40000, 50000]\<close>; \<open>ReleasePort p\<close> fails with
  InvalidArgument exactly when \<open>p < 40000\<close> or \<open>p > 50000\<close>, and succeeds otherwise.
\<close>

theorem GetPort_range_closed:
  "(run_ops New ops = (evs, pm) \<longrightarrow> Acquired p \<in> set evs \<longrightarrow> 40000 \<le> p \<and> p \<le> 50000)
   \<and> (fst (ReleasePort q pm0) = Some (InvalidArgument q) \<longleftrightarrow> q < 40000 \<or> 50000 < q)
   \<and> (fst (ReleasePort q pm0) = None \<longleftrightarrow> 40000 \<le> q \<and> q \<le> 50000)"
proof -
  have a: "run_ops New ops = (evs, pm) \<longrightarrow> Acquired p \<in> set evs \<longrightarrow> 40000 \<le> p \<and> p \<le> 50000"
  proof (intro impI)
    assume "run_ops New ops = (evs, pm)" and "Acquired p \<in> set evs"
    from run_ops_range [OF this(1) cursor_ok_New this(2)]
    show "40000 \<le> p \<and> p \<le> 50000" by (simp add: minPort_def maxPort_def)
  qed
  have b: "fst (ReleasePort q pm0) = Some (InvalidArgument q) \<longleftrightarrow> q < 40000 \<or> 50000 < q"
    by (simp add: ReleasePort_def minPort_def maxPort_def)
  have c: "fst (ReleasePort q pm0) = None \<longleftrightarrow> 40000 \<le> q \<and> q \<le> 50000"
    by (simp add: ReleasePort_def minPort_def maxPort_def not_less)
  from a b c show ?thesis by blast
qed

theorem GetPort_range_closed_witness:
  "run_ops New [OpGetPort all_free] = ([Acquired 40000], \<lparr>usedPorts = {40000}, lastAssigned = 40000\<rparr>)
   \<and> Acquired 40000 \<in> set [Acquired 40000]
   \<and> (40000::int) \<le> 40000 \<and> (40000::int) \<le> 50000
   \<and> fst (ReleasePort 50001 New) = Some (InvalidArgument 50001)
   \<and> fst (ReleasePort 50000 New) = None"
proof -
  have r: "run_ops New [OpGetPort all_free] =
             ([Acquired 40000], \<lparr>usedPorts = {40000}, lastAssigned = 40000\<rparr>)"
    by code_simp
  have m: "Acquired 40000 \<in> set [Acquired 40000]" by simp
  note t = GetPort_range_closed [of "[OpGetPort all_free]" "[Acquired 40000]"
      "\<lparr>usedPorts = {40000}, lastAssigned = 40000\<rparr>" 40000]
  from t [of 50001 New] r m have a: "(40000::int) \<le> 40000 \<and> (40000::int) \<le> 50000"
    by blast
  from t [of 50001 New] have b: "fst (ReleasePort 50001 New) = Some (InvalidArgument 50001)"
    by simp
  from t [of 50000 New] have c: "fst (ReleasePort 50000 New) = None"
    by simp
  from r m a b c show ?thesis by blast
qed

text \<open>
  C6. In every sequence of \<open>GetPort\<close> and \<open>ReleasePort\<close> calls on one manager, a port
  returned by \<open>GetPort\<close> is not held at that moment: no earlier \<open>GetPort\<close> returned it
  without a \<open>ReleasePort\<close> of it in between. \<open>GetPort\<close> fails exactly when each of the
  10 candidates after the cursor is leased or fails its bind test; its only error is
  PortExhausted, and its result depends on the bind tests of iterations 0 to 9 only, so it
  makes at most 10 attempts.
\<close>

theorem GetPort_no_double_lease:
  "(run_ops New ops = (pre @ Acquired p # post, pm) \<longrightarrow> p \<notin> held pre)
   \<and> (fst (GetPort listen pm0) = Inl (PortExhausted 10) \<longleftrightarrow>
        (\<forall>k<10. candidate pm0 k \<in> usedPorts pm0 \<or> \<not> listen k (candidate pm0 k)))
   \<and> (\<forall>e. fst (GetPort listen pm0) = Inl e \<longrightarrow> e = PortExhausted 10)
   \<and> ((\<forall>k<10. listen k = listen' k) \<longrightarrow> GetPort listen pm0 = GetPort listen' pm0)"
proof -
  have a: "run_ops New ops = (pre @ Acquired p # post, pm) \<longrightarrow> p \<notin> held pre"
  proof
    assume "run_ops New ops = (pre @ Acquired p # post, pm)"
    from run_ops_held [OF this] show "p \<notin> held pre"
      by (simp add: held_def New_def)
  qed
  have b: "fst (GetPort listen pm0) = Inl (PortExhausted 10) \<longleftrightarrow>
        (\<forall>k<10. candidate pm0 k \<in> usedPorts pm0 \<or> \<not> listen k (candidate pm0 k))"
    using GetPort_loop_fail_iff [of listen 0 pm0] by (simp add: GetPort_def maxAttempts_def)
  have c: "\<forall>e. fst (GetPort listen pm0) = Inl e \<longrightarrow> e = PortExhausted 10"
  proof (intro allI impI)
    fix e assume "fst (GetPort listen pm0) = Inl e"
    then have "GetPort listen pm0 = (Inl e, snd (GetPort listen pm0))"
      by (simp add: prod_eq_iff)
    from GetPort_Inl [OF this] show "e = PortExhausted 10" by (simp add: maxAttempts_def)
  qed
  have d: "(\<forall>k<10. listen k = listen' k) \<longrightarrow> GetPort listen pm0 = GetPort listen' pm0"
  proof
    assume "\<forall>k<10. listen k = listen' k"
    then show "GetPort listen pm0 = GetPort listen' pm0"
      unfolding GetPort_def by (intro GetPort_loop_cong) (simp add: maxAttempts_def)
  qed
  from a b c d show ?thesis by blast
qed

theorem GetPort_no_double_lease_witness:
  "run_ops New [OpGetPort all_free, OpGetPort all_free] =
     ([Acquired 40000] @ Acquired 40001 # [], \<lparr>usedPorts = {40001, 40000}, lastAssigned = 40001\<rparr>)
   \<and> 40001 \<notin> held [Acquired 40000]
   \<and> fst (GetPort none_free New) = Inl (PortExhausted 10)
   \<and> GetPort none_free New = GetPort none_free New"
proof -
  have r: "run_ops New [OpGetPort all_free, OpGetPort all_free] =
     ([Acquired 40000] @ Acquired 40001 # [], \<lparr>usedPorts = {40001, 40000}, lastAssigned = 40001\<rparr>)"
    by code_simp
  have c: "\<forall>k<10. candidate New k \<in> usedPorts New \<or> \<not> none_free k (candidate New k)"
    by (simp add: none_free_def)
  note t = GetPort_no_double_lease [of "[OpGetPort all_free, OpGetPort all_free]"
      "[Acquired 40000]" 40001 "[]" "\<lparr>usedPorts = {40001, 40000}, lastAssigned = 40001\<rparr>"
      none_free New none_free]
  from t r have a: "40001 \<notin> held [Acquired 40000]" by blast
  from t c have b: "fst (GetPort none_free New) = Inl (PortExhausted 10)" by blast
  have d: "\<forall>k<10. none_free k = none_free k" by simp
  with t have e: "GetPort none_free New = GetPort none_free New" by blast
  from r a b e show ?thesis by blast
qed


text \<open>
  C10. For every port that \<open>ReleasePort\<close> accepts as in range, if the port is not leased
  (never acquired, or already released), \<open>ReleasePort\<close> returns no error and leaves the
  set of leased ports, and the whole manager, unchanged: it never checks that the port was
  acquired.
\<close>

theorem ReleasePort_not_leased:
  assumes "fst (ReleasePort p pm) \<noteq> Some (InvalidArgument p)"
    and "p \<notin> usedPorts pm"
  shows "ReleasePort p pm = (None, pm)"
  using assms by (simp add: ReleasePort_def split: if_splits)

theorem ReleasePort_not_leased_witness:
  "fst (ReleasePort 40001 New) \<noteq> Some (InvalidArgument 40001)
   \<and> 40001 \<notin> usedPorts New
   \<and> ReleasePort 40001 New = (None, New)"
proof -
  have a: "fst (ReleasePort 40001 New) \<noteq> Some (InvalidArgument 40001)"
    by (simp add: ReleasePort_def minPort_def maxPort_def)
  have b: "40001 \<notin> usedPorts New"
    by (simp add: New_def)
  from ReleasePort_not_leased [OF a b] a b show ?thesis by simp
qed

section \<open>Properties of manifest validation\<close>

lemma Contains_nonempty: "Contains s ''..'' \<Longrightarrow> s \<noteq> []"
  by (cases s) auto

text \<open>
  C7, as the specification states it, has every path containing \<open>..\<close> rejected unless the
  variable is \<open>"true"\<close>, and accepted when it is. The code makes the check only for
  paths that are not absolute, and the kind of the plugin is checked afterwards: the
  absolute path \<open>/opt/../p\<close> is accepted with the variable unset, and \<open>../p\<close> with an
  unsupported kind is rejected with the variable set to \<open>"true"\<close>.
\<close>

theorem Validate_double_dot_counterexample:
  "Contains ''/opt/../p'' ''..''
   \<and> ManifestPlugin_Validate Map.empty
        \<lparr>Name = '''', Path = ''/opt/../p'', Kind = ''build_and_run''\<rparr> = None
   \<and> Contains ''../p'' ''..''
   \<and> ManifestPlugin_Validate [''GRPC_PLUGINS_ALLOW_RELATIVE_PATHS_DOUBLE_DOT'' \<mapsto> ''true'']
        \<lparr>Name = '''', Path = ''../p'', Kind = ''run''\<rparr> = Some (UnsupportedPluginKind ''run'')"
  by (simp add: ManifestPlugin_Validate_def IsAbs_def HasPrefix_def Getenv_def)

text \<open>
  C7, amended. For every manifest plugin whose path contains \<open>..\<close>: if the path is
  relative and the variable is anything but \<open>"true"\<close> (unset reads as the empty string),
  validation rejects it with the \<open>..\<close> error; if the path is relative and the variable
  is \<open>"true"\<close>, or if the path is absolute, the \<open>..\<close> check does not apply and the result
  is that of the kind check, which accepts exactly the kind \<open>build_and_run\<close>.
\<close>

theorem Validate_double_dot:
  assumes "Contains (Path p) ''..''"
  shows "(\<not> IsAbs (Path p) \<and> Getenv env ''GRPC_PLUGINS_ALLOW_RELATIVE_PATHS_DOUBLE_DOT'' \<noteq> ''true''
            \<longrightarrow> ManifestPlugin_Validate env p = Some PluginPathDoubleDot)
       \<and> (\<not> IsAbs (Path p) \<and> Getenv env ''GRPC_PLUGINS_ALLOW_RELATIVE_PATHS_DOUBLE_DOT'' = ''true''
            \<longrightarrow> ManifestPlugin_Validate env p = kind_check p)
       \<and> (IsAbs (Path p) \<longrightarrow> ManifestPlugin_Validate env p = kind_check p)
       \<and> (env ''GRPC_PLUGINS_ALLOW_RELATIVE_PATHS_DOUBLE_DOT'' = None
            \<longrightarrow> Getenv env ''GRPC_PLUGINS_ALLOW_RELATIVE_PATHS_DOUBLE_DOT'' \<noteq> ''true'')
       \<and> (kind_check p = None \<longleftrightarrow> Kind p = ''build_and_run'')"
  using assms Contains_nonempty [OF assms]
  by (simp add: ManifestPlugin_Validate_def kind_check_def Getenv_def)

theorem Validate_double_dot_witness:
  "Contains (Path \<lparr>Name = '''', Path = ''../p'', Kind = ''build_and_run''\<rparr>) ''..''
   \<and> \<not> IsAbs ''../p''
   \<and> Getenv Map.empty ''GRPC_PLUGINS_ALLOW_RELATIVE_PATHS_DOUBLE_DOT'' \<noteq> ''true''
   \<and> ManifestPlugin_Validate Map.empty
         \<lparr>Name = '''', Path = ''../p'', Kind = ''build_and_run''\<rparr> = Some PluginPathDoubleDot
   \<and> Getenv [''GRPC_PLUGINS_ALLOW_RELATIVE_PATHS_DOUBLE_DOT'' \<mapsto> ''true'']
         ''GRPC_PLUGINS_ALLOW_RELATIVE_PATHS_DOUBLE_DOT'' = ''true''
   \<and> ManifestPlugin_Validate [''GRPC_PLUGINS_ALLOW_RELATIVE_PATHS_DOUBLE_DOT'' \<mapsto> ''true'']
         \<lparr>Name = '''', Path = ''../p'', Kind = ''build_and_run''\<rparr> = None
   \<and> Contains (Path \<lparr>Name = '''', Path = ''/opt/../p'', Kind = ''''\<rparr>) ''..''
   \<and> IsAbs ''/opt/../p''
   \<and> ManifestPlugin_Validate Map.empty
         \<lparr>Name = '''', Path = ''/opt/../p'', Kind = ''''\<rparr> = Some PluginKindEmpty"
proof -
  let ?p = "\<lparr>Name = '''', Path = ''../p'', Kind = ''build_and_run''\<rparr>"
  let ?q = "\<lparr>Name = '''', Path = ''/opt/../p'', Kind = ''''\<rparr>"
  let ?on = "[''GRPC_PLUGINS_ALLOW_RELATIVE_PATHS_DOUBLE_DOT'' \<mapsto> ''true'']"
  have cp: "Contains (Path ?p) ''..''" by (simp add: HasPrefix_def)
  have cq: "Contains (Path ?q) ''..''" by (simp add: HasPrefix_def)
  have rel: "\<not> IsAbs ''../p''" by (simp add: IsAbs_def HasPrefix_def)
  have ab: "IsAbs ''/opt/../p''" by (simp add: IsAbs_def HasPrefix_def)
  have off: "Getenv Map.empty ''GRPC_PLUGINS_ALLOW_RELATIVE_PATHS_DOUBLE_DOT'' \<noteq> ''true''"
    by (simp add: Getenv_def)
  have on: "Getenv ?on ''GRPC_PLUGINS_ALLOW_RELATIVE_PATHS_DOUBLE_DOT'' = ''true''"
    by (simp add: Getenv_def)
  have kp: "kind_check ?p = None" by (simp add: kind_check_def)
  have kq: "kind_check ?q = Some PluginKindEmpty" by (simp add: kind_check_def)
  from Validate_double_dot [OF cp, of Map.empty] rel off
  have a: "ManifestPlugin_Validate Map.empty ?p = Some PluginPathDoubleDot" by simp
  from Validate_double_dot [OF cp, of ?on] rel on kp
  have b: "ManifestPlugin_Validate ?on ?p = None" by simp
  from Validate_double_dot [OF cq, of Map.empty] ab kq
  have c: "ManifestPlugin_Validate Map.empty ?q = Some PluginKindEmpty" by simp
  from cp cq rel ab off on a b c show ?thesis by simp
qed

section \<open>Properties of the PKI\<close>

lemma GeneratePrivateCA_parsed:
  assumes "GeneratePrivateCA lib ent = Inr a"
  shows "x509_ParseCertificate lib (ca_CertBytes a) = Inr (ca_Cert a)"
  using assms
  by (auto simp: GeneratePrivateCA_def Let_def split: sum.splits)

lemma GenerateKeyAndCertFromCA_shape:
  assumes "GenerateKeyAndCertFromCA lib ent (Some a) subject role = Inr L"
  shows "\<exists>key cert. L = \<lparr>CN = subject, Key = Some key, CACert = Some (ca_Cert a),
                           CACertBytes = ca_CertBytes a, Cert = Some cert,
                           CertBytes = CertBytes L\<rparr>
           \<and> x509_ParseCertificate lib (CertBytes L) = Inr cert"
  using assms
  by (auto simp: GenerateKeyAndCertFromCA_def Let_def split: sum.splits if_splits)

text \<open>
  C3. Let \<open>L\<close> be a leaf credential issued by \<open>GenerateKeyAndCertFromCA\<close> under an
  authority made by \<open>GeneratePrivateCA\<close>, and \<open>d\<close> its serialization. Assume of the library
  that base64 decoding inverts encoding, that a parsed certificate has the parsed bytes
  as its \<open>Raw\<close>, that the PKCS#1 encoding of the key of \<open>L\<close> parses back to that key, and
  that the JSON document \<open>d\<close> decodes to the struct it encodes. Then
  \<open>DeserializeKeyAndCert d\<close> succeeds and returns \<open>L\<close> itself: the same raw leaf and CA
  certificate bytes, common name and private key.
\<close>

theorem Deserialize_Serialize:
  assumes ca: "GeneratePrivateCA lib ent0 = Inr a"
    and leaf: "GenerateKeyAndCertFromCA lib ent (Some a) subject role = Inr L"
    and ser: "Serialize lib L = Inr d"
    and b64: "\<forall>b. base64_DecodeString lib (base64_EncodeToString lib b) = Inr b"
    and raw: "\<forall>b c. x509_ParseCertificate lib b = Inr c \<longrightarrow> Raw c = b"
    and key: "\<forall>k. Key L = Some k \<longrightarrow>
                x509_ParsePKCS1PrivateKey lib (x509_MarshalPKCS1PrivateKey lib k) = Inr k"
    and json: "\<forall>s. json_Marshal_KeyAndCert lib s = Inr d \<longrightarrow>
                json_Unmarshal_KeyAndCert lib d = Inr s"
  shows "\<exists>L'. DeserializeKeyAndCert lib d = Inr L' \<and> L' = L
               \<and> CertBytes L' = CertBytes L \<and> CACertBytes L' = CACertBytes L
               \<and> map_option Raw (Cert L') = Some (CertBytes L)
               \<and> map_option Raw (CACert L') = Some (CACertBytes L)
               \<and> CN L' = CN L \<and> Key L' = Key L"
proof -
  from GenerateKeyAndCertFromCA_shape [OF leaf] obtain k cert where
    L: "L = \<lparr>CN = subject, Key = Some k, CACert = Some (ca_Cert a),
             CACertBytes = ca_CertBytes a, Cert = Some cert, CertBytes = CertBytes L\<rparr>"
    and pc: "x509_ParseCertificate lib (CertBytes L) = Inr cert"
    by blast
  have pa: "x509_ParseCertificate lib (ca_CertBytes a) = Inr (ca_Cert a)"
    by (rule GeneratePrivateCA_parsed [OF ca])
  from raw pc have rc: "Raw cert = CertBytes L" by blast
  from raw pa have ra: "Raw (ca_Cert a) = ca_CertBytes a" by blast
  have fields: "Cert L = Some cert" "CACert L = Some (ca_Cert a)" "Key L = Some k"
    "CN L = subject" "CACertBytes L = ca_CertBytes a"
    by (subst L, simp)+
  from ser fields
  have "json_Marshal_KeyAndCert lib (toSerialize lib subject cert (ca_Cert a) k) = Inr d"
    by (simp add: Serialize_def split: sum.splits)
  with json
  have u: "json_Unmarshal_KeyAndCert lib d = Inr (toSerialize lib subject cert (ca_Cert a) k)"
    by blast
  from key fields
  have pk: "x509_ParsePKCS1PrivateKey lib (x509_MarshalPKCS1PrivateKey lib k) = Inr k"
    by blast
  have "DeserializeKeyAndCert lib d =
          Inr \<lparr>CN = subject, Key = Some k, CACert = Some (ca_Cert a),
               CACertBytes = ca_CertBytes a, Cert = Some cert, CertBytes = CertBytes L\<rparr>"
    by (simp add: DeserializeKeyAndCert_def u toSerialize_def b64 rc ra pk pc pa)
  with L have "DeserializeKeyAndCert lib d = Inr L" by simp
  with fields rc ra show ?thesis by simp
qed

lemma sample_lib_base64:
  "\<forall>b. base64_DecodeString sample_lib (base64_EncodeToString sample_lib b) = Inr b"
  by (simp add: sample_lib_def)

lemma sample_lib_Raw:
  "\<forall>b c. x509_ParseCertificate sample_lib b = Inr c \<longrightarrow> Raw c = b"
  by (auto simp: sample_lib_def sample_cert_def split: if_splits)

lemma sample_lib_key:
  "\<forall>k. Key (sample_credential ''alpha'') = Some k \<longrightarrow>
     x509_ParsePKCS1PrivateKey sample_lib (x509_MarshalPKCS1PrivateKey sample_lib k) = Inr k"
  by (simp add: sample_lib_def sample_credential_def)

lemma render_alpha_neq_p:
  "render_KeyAndCert (sample_serialized ''p'') \<noteq> render_KeyAndCert (sample_serialized ''alpha'')"
  by (simp add: render_KeyAndCert_def sample_serialized_def)

lemma sample_lib_json:
  "\<forall>s. json_Marshal_KeyAndCert sample_lib s = Inr (render_KeyAndCert (sample_serialized ''alpha''))
       \<longrightarrow> json_Unmarshal_KeyAndCert sample_lib (render_KeyAndCert (sample_serialized ''alpha''))
            = Inr s"
proof (intro allI impI)
  fix s
  assume m: "json_Marshal_KeyAndCert sample_lib s
               = Inr (render_KeyAndCert (sample_serialized ''alpha''))"
  have ne: "render_KeyAndCert (sample_serialized ''alpha'') \<noteq> ''{}''"
    by (simp add: render_KeyAndCert_def)
  from m render_alpha_neq_p have "s = sample_serialized ''alpha''"
    by (auto simp: sample_lib_def split: if_splits)
  with ne show "json_Unmarshal_KeyAndCert sample_lib (render_KeyAndCert (sample_serialized ''alpha''))
                  = Inr s"
    by (simp add: sample_lib_def)
qed

theorem Deserialize_Serialize_witness:
  "GeneratePrivateCA sample_lib sample_entropy = Inr sample_ca
   \<and> GenerateKeyAndCertFromCA sample_lib sample_entropy (Some sample_ca) ''alpha'' ''server''
       = Inr (sample_credential ''alpha'')
   \<and> Serialize sample_lib (sample_credential ''alpha'')
       = Inr (render_KeyAndCert (sample_serialized ''alpha''))
   \<and> DeserializeKeyAndCert sample_lib (render_KeyAndCert (sample_serialized ''alpha''))
       = Inr (sample_credential ''alpha'')"
proof -
  have ca: "GeneratePrivateCA sample_lib sample_entropy = Inr sample_ca"
    by code_simp
  have leaf: "GenerateKeyAndCertFromCA sample_lib sample_entropy (Some sample_ca) ''alpha'' ''server''
                = Inr (sample_credential ''alpha'')"
    by code_simp
  have ser: "Serialize sample_lib (sample_credential ''alpha'')
               = Inr (render_KeyAndCert (sample_serialized ''alpha''))"
    by code_simp
  from Deserialize_Serialize [OF ca leaf ser sample_lib_base64 sample_lib_Raw sample_lib_key
      sample_lib_json]
  have "DeserializeKeyAndCert sample_lib (render_KeyAndCert (sample_serialized ''alpha''))
          = Inr (sample_credential ''alpha'')"
    by blast
  with ca leaf ser show ?thesis by blast
qed

text \<open>
  C4. For every leaf credential (one whose certificate and CA certificate are present, as
  in every credential that issuance or deserialization returns), \<open>GetTLSConfig\<close> returns
  a configuration with minimum and maximum version TLS 1.3 (0x0304), client
  authentication set to require and verify the peer certificate, root and client CA
  pools holding exactly the CA certificate of the credential, the leaf certificate with
  the key of the credential as the only local certificate, and insecure-skip-verify off.
\<close>

theorem GetTLSConfig_mutual_TLS13:
  assumes "Cert k = Some cert" and "CACert k = Some caCert"
  shows "\<exists>c. GetTLSConfig k = Inr c
           \<and> MinVersion c = 0x0304 \<and> MaxVersion c = 0x0304
           \<and> ClientAuth c = RequireAndVerifyClientCert
           \<and> \<not> InsecureSkipVerify c
           \<and> RootCAs c = [caCert] \<and> ClientCAs c = [caCert]
           \<and> Certificates c = [\<lparr>Certificate = [Raw cert], PrivateKey = Key k, Leaf = Some cert\<rparr>]"
  using assms
  by (simp add: GetTLSConfig_def VersionTLS13_def AddCert_def NewCertPool_def Let_def)

theorem GetTLSConfig_mutual_TLS13_witness:
  "Cert (sample_credential ''alpha'') = Some (sample_cert ''DER:alpha'')
   \<and> CACert (sample_credential ''alpha'') = Some (sample_cert ''DER:'')
   \<and> (\<exists>c. GetTLSConfig (sample_credential ''alpha'') = Inr c
           \<and> MinVersion c = 0x0304 \<and> MaxVersion c = 0x0304
           \<and> ClientAuth c = RequireAndVerifyClientCert
           \<and> \<not> InsecureSkipVerify c
           \<and> RootCAs c = [sample_cert ''DER:''] \<and> ClientCAs c = [sample_cert ''DER:'']
           \<and> Certificates c =
               [\<lparr>Certificate = [Raw (sample_cert ''DER:alpha'')],
                 PrivateKey = Key (sample_credential ''alpha''),
                 Leaf = Some (sample_cert ''DER:alpha'')\<rparr>])"
proof -
  have a: "Cert (sample_credential ''alpha'') = Some (sample_cert ''DER:alpha'')"
    by (simp add: sample_credential_def)
  have b: "CACert (sample_credential ''alpha'') = Some (sample_cert ''DER:'')"
    by (simp add: sample_credential_def)
  from GetTLSConfig_mutual_TLS13 [OF a b] a b show ?thesis by blast
qed

section \<open>Properties of the logger options\<close>

lemma map_of_map_assign:
  "map_of (map_assign m k v) k' = (if k' = k then Some v else map_of m k')"
  by (induction m k v rule: map_assign.induct) auto

lemma map_of_json_view:
  "map_of (map (\<lambda>(k, v). (k, json_view v)) m) k = map_option json_view (map_of m k)"
  by (induction m) auto

lemma marshal_data_type: "map_of (marshal_data l) ''type'' = Some (AString (Type l))"
  by (simp add: marshal_data_def map_of_map_assign Let_def split: option.split)

lemma marshal_data_level: "map_of (marshal_data l) ''level'' = map_option AInt (Level l)"
  by (simp add: marshal_data_def map_of_map_assign Let_def split: option.split)

lemma marshal_data_attributes:
  "map_of (marshal_data l) ''attributes'' = Some (AMap (marshal_attributes (Attributes l)))"
  by (simp add: marshal_data_def map_of_map_assign Let_def split: option.split)

lemma map_assign_fresh: "k \<notin> fst ` set m \<Longrightarrow> map_assign m k v = m @ [(k, v)]"
  by (induction m) auto

lemma foldl_map_assign_distinct:
  "distinct (map fst m @ map fst attrs) \<Longrightarrow>
   foldl (\<lambda>m (key, val). map_assign m key (Value_Any val)) m attrs =
     m @ map (\<lambda>(key, val). (key, Value_Any val)) attrs"
proof (induction attrs arbitrary: m)
  case Nil
  then show ?case by simp
next
  case (Cons a attrs)
  obtain k v where a: "a = (k, v)" by (cases a)
  from Cons.prems a have fresh: "k \<notin> fst ` set m" by auto
  from Cons.prems a have "distinct (map fst (m @ [(k, Value_Any v)]) @ map fst attrs)" by auto
  from Cons.IH [OF this] show ?case
    by (simp add: a map_assign_fresh [OF fresh])
qed

lemma marshal_attributes_distinct:
  "distinct (map fst attrs) \<Longrightarrow>
   marshal_attributes attrs = map (\<lambda>(key, val). (key, Value_Any val)) attrs"
  using foldl_map_assign_distinct [of "[]" attrs] by (simp add: marshal_attributes_def)

lemma float64_of_int_small: "\<bar>n\<bar> < 2 ^ 53 \<Longrightarrow> float64_of_int n = of_int n"
  by (simp add: float64_of_int_def Let_def nat_less_iff)

lemma math_Round_of_int: "math_Round (of_int n) = of_int n"
proof -
  have a: "\<lfloor>(of_int n :: rat) + 1 / 2\<rfloor> = n" by (rule floor_unique) simp_all
  have b: "\<lfloor>- (of_int n :: rat) + 1 / 2\<rfloor> = - n"
    using floor_unique [of "- n" "- (of_int n :: rat) + 1 / 2"] by simp
  show ?thesis
    unfolding math_Round_def by (simp only: a b of_int_minus minus_minus if_cancel)
qed

lemma int_of_float64_of_int:
  "- (2 ^ 63) \<le> n \<Longrightarrow> n < 2 ^ 63 \<Longrightarrow> int_of_float64 (of_int n) = n"
proof -
  assume r: "- (2 ^ 63) \<le> n" "n < 2 ^ 63"
  have "\<lfloor>- (of_int n :: rat)\<rfloor> = - n"
    using floor_of_int [of "- n", where ?'a = rat] by simp
  with r show ?thesis by (simp add: int_of_float64_def Let_def)
qed

lemma level_round_trip:
  assumes "\<bar>n\<bar> < 2 ^ 53"
  shows "int_of_float64 (math_Round (float64_of_int n)) = n"
proof -
  from assms have "- (2 ^ 63) \<le> n" "n < 2 ^ 63" by simp_all
  then show ?thesis
    by (simp add: float64_of_int_small [OF assms] math_Round_of_int int_of_float64_of_int)
qed

lemma decoded_attributes:
  assumes keys: "distinct (map fst attrs)"
    and stable: "\<forall>(k, v) \<in> set attrs. json_stable v"
    and ord: "\<forall>m. mset (order m) = mset m"
  shows "mset (map (\<lambda>(key, val). (key, slog_AnyValue val))
                 (order (map (\<lambda>(k, v). (k, json_view v)) (marshal_attributes attrs))))
         = mset attrs"
proof -
  let ?enc = "map (\<lambda>(k, v). (k, json_view v)) (marshal_attributes attrs)"
  have enc: "?enc = map (\<lambda>(k, v). (k, json_view (Value_Any v))) attrs"
    by (simp add: marshal_attributes_distinct [OF keys] case_prod_beta)
  have "mset (map (\<lambda>(key, val). (key, slog_AnyValue val)) (order ?enc))
        = image_mset (\<lambda>(key, val). (key, slog_AnyValue val)) (mset (order ?enc))"
    by (rule mset_map)
  also have "\<dots> = image_mset (\<lambda>(key, val). (key, slog_AnyValue val)) (mset ?enc)"
    by (simp only: ord [rule_format])
  also have "\<dots> = mset (map (\<lambda>(key, val). (key, slog_AnyValue val)) ?enc)"
    by (rule mset_map [symmetric])
  also have "map (\<lambda>(key, val). (key, slog_AnyValue val)) ?enc = attrs"
  proof -
    have "map (\<lambda>(key, val). (key, slog_AnyValue val)) ?enc
          = map (\<lambda>(k, v). (k, slog_AnyValue (json_view (Value_Any v)))) attrs"
      by (simp add: enc case_prod_beta)
    also have "\<dots> = map (\<lambda>a. a) attrs"
    proof (rule map_cong [OF refl])
      fix a assume "a \<in> set attrs"
      with stable show "(case a of (k, v) \<Rightarrow> (k, slog_AnyValue (json_view (Value_Any v)))) = a"
        by (cases a) (auto simp: json_stable_def)
    qed
    finally show ?thesis by simp
  qed
  finally show ?thesis .
qed

lemma json_stable_String: "json_stable (StringValue s)"
  by (simp add: json_stable_def)

lemma json_stable_Bool: "json_stable (BoolValue b)"
  by (simp add: json_stable_def)

lemma json_stable_Float64: "json_stable (Float64Value x)"
  by (simp add: json_stable_def)

lemma not_json_stable_Int64: "\<not> json_stable (Int64Value n)"
  by (simp add: json_stable_def)

text \<open>
  C9, as the specification states it, has the round trip preserve the three fields of
  every logger-options record. \<open>MarshalJSON\<close> collects the attributes in a map, so of two
  attributes with the same key only the last one is encoded, and the decoder reads every
  JSON number as a \<open>float64\<close>, so an integer attribute comes back with another kind.
  Here \<open>[a = "x", a = "y"]\<close> comes back as \<open>[a = "y"]\<close>, and \<open>[n = Int64 1]\<close> as
  \<open>[n = Float64 1]\<close>. A level of \<open>2^53 + 1\<close> comes back as \<open>2^53\<close>, the nearest
  \<open>float64\<close>, and a type that is not valid UTF-8 comes back as the replacement character,
  to which the encoder coerces it.
\<close>

theorem LoggerOptions_round_trip_counterexample:
  "MarshalJSON sample_lib options_twice = Inr doc_twice
   \<and> Attributes options_twice = [(''a'', StringValue ''x''), (''a'', StringValue ''y'')]
   \<and> UnmarshalJSON sample_lib list_order doc_twice zero_LoggerOptions
       = (None, \<lparr>Type = ''text'', Level = None, Attributes = [(''a'', StringValue ''y'')]\<rparr>)
   \<and> MarshalJSON sample_lib options_int = Inr doc_int
   \<and> Attributes options_int = [(''n'', Int64Value 1)]
   \<and> UnmarshalJSON sample_lib list_order doc_int zero_LoggerOptions
       = (None, \<lparr>Type = ''text'', Level = None, Attributes = [(''n'', Float64Value 1)]\<rparr>)
   \<and> MarshalJSON sample_lib options_level = Inr doc_level
   \<and> Level options_level = Some 9007199254740993
   \<and> UnmarshalJSON sample_lib list_order doc_level zero_LoggerOptions
       = (None, \<lparr>Type = ''text'', Level = Some 9007199254740992, Attributes = []\<rparr>)
   \<and> MarshalJSON sample_lib options_byte = Inr doc_byte
   \<and> Type options_byte = [CHR 0xFF]
   \<and> UnmarshalJSON sample_lib list_order doc_byte zero_LoggerOptions
       = (None, \<lparr>Type = [CHR 0xEF, CHR 0xBF, CHR 0xBD], Level = None, Attributes = []\<rparr>)"
proof -
  have g: "MarshalJSON sample_lib options_level = Inr doc_level" by code_simp
  have h: "Level options_level = Some 9007199254740993"
    by (simp add: options_level_def)
  have i: "UnmarshalJSON sample_lib list_order doc_level zero_LoggerOptions
       = (None, \<lparr>Type = ''text'', Level = Some 9007199254740992, Attributes = []\<rparr>)"
    by code_simp
  have j: "MarshalJSON sample_lib options_byte = Inr doc_byte" by code_simp
  have k: "Type options_byte = [CHR 0xFF]"
    by (simp add: options_byte_def)
  have l: "UnmarshalJSON sample_lib list_order doc_byte zero_LoggerOptions
       = (None, \<lparr>Type = [CHR 0xEF, CHR 0xBF, CHR 0xBD], Level = None, Attributes = []\<rparr>)"
    by code_simp
  have a: "MarshalJSON sample_lib options_twice = Inr doc_twice" by code_simp
  have b: "Attributes options_twice = [(''a'', StringValue ''x''), (''a'', StringValue ''y'')]"
    by (simp add: options_twice_def)
  have c: "UnmarshalJSON sample_lib list_order doc_twice zero_LoggerOptions
       = (None, \<lparr>Type = ''text'', Level = None, Attributes = [(''a'', StringValue ''y'')]\<rparr>)"
    by code_simp
  have d: "MarshalJSON sample_lib options_int = Inr doc_int" by code_simp
  have e: "Attributes options_int = [(''n'', Int64Value 1)]"
    by (simp add: options_int_def)
  have f: "UnmarshalJSON sample_lib list_order doc_int zero_LoggerOptions
       = (None, \<lparr>Type = ''text'', Level = None, Attributes = [(''n'', Float64Value 1)]\<rparr>)"
    by code_simp
  from a b c d e f g h i j k l show ?thesis by blast
qed

text \<open>
  C9, amended. Take a logger-options record whose attribute keys are pairwise distinct,
  whose attribute values are stable under JSON's generic decoding (strings, booleans and
  \<open>float64\<close> values are; integers are not), and whose level, if present, has magnitude
  below \<open>2^53\<close>; let \<open>d\<close> be its encoding, and assume the JSON library decodes \<open>d\<close> to the
  generic view of the encoded map (as it does when the strings are valid UTF-8). Then
  decoding \<open>d\<close> into a fresh record succeeds and preserves the type, the level, and the
  attributes as a multiset of key-value pairs, whatever order the map iteration takes.
\<close>

theorem LoggerOptions_round_trip:
  assumes enc: "MarshalJSON lib l = Inr d"
    and rt: "json_round_trip lib (AMap (marshal_data l))"
    and keys: "distinct (map fst (Attributes l))"
    and stable: "\<forall>(k, v) \<in> set (Attributes l). json_stable v"
    and lvl: "\<forall>n. Level l = Some n \<longrightarrow> \<bar>n\<bar> < 2 ^ 53"
    and ord: "\<forall>m. mset (order m) = mset m"
  shows "\<exists>l'. UnmarshalJSON lib order d zero_LoggerOptions = (None, l')
            \<and> Type l' = Type l \<and> Level l' = Level l
            \<and> mset (Attributes l') = mset (Attributes l)"
proof -
  let ?tmp = "map (\<lambda>(k, v). (k, json_view v)) (marshal_data l)"
  let ?attrMap = "map (\<lambda>(k, v). (k, json_view v)) (marshal_attributes (Attributes l))"
  let ?attrs = "map (\<lambda>(key, val). (key, slog_AnyValue val)) (order ?attrMap)"
  from enc rt have dec: "json_Unmarshal lib d = Inr (AMap ?tmp)"
    by (simp add: MarshalJSON_def json_round_trip_def)
  have ty: "map_of ?tmp ''type'' = Some (AString (Type l))"
    by (simp add: map_of_json_view marshal_data_type)
  have at: "map_of ?tmp ''attributes'' = Some (AMap ?attrMap)"
    by (simp add: map_of_json_view marshal_data_attributes)
  have ms: "mset ?attrs = mset (Attributes l)"
    by (rule decoded_attributes [OF keys stable ord])
  show ?thesis
  proof (cases "Level l")
    case None
    then have lv: "map_of ?tmp ''level'' = None"
      by (simp add: map_of_json_view marshal_data_level)
    have "UnmarshalJSON lib order d zero_LoggerOptions =
            (None, \<lparr>Type = Type l, Level = None, Attributes = ?attrs\<rparr>)"
      by (simp add: UnmarshalJSON_def dec decode_map_def ty lv at zero_LoggerOptions_def)
    with None ms show ?thesis by simp
  next
    case (Some n)
    then have lv: "map_of ?tmp ''level'' = Some (AFloat64 (float64_of_int n))"
      by (simp add: map_of_json_view marshal_data_level)
    from lvl Some have "int_of_float64 (math_Round (float64_of_int n)) = n"
      by (intro level_round_trip) simp
    then have "UnmarshalJSON lib order d zero_LoggerOptions =
            (None, \<lparr>Type = Type l, Level = Some n, Attributes = ?attrs\<rparr>)"
      by (simp add: UnmarshalJSON_def dec decode_map_def ty lv at zero_LoggerOptions_def)
    with Some ms show ?thesis by simp
  qed
qed

lemma marshal_data_runner:
  "marshal_data options_runner =
     [(''type'', AString ''text''), (''level'', AInt 0),
      (''attributes'', AMap [(''run by'', Value_Any (StringValue ''runner''))])]"
  by (simp add: marshal_data_def options_runner_def marshal_attributes_def)

lemma sample_round_trip_runner: "json_round_trip sample_lib (AMap (marshal_data options_runner))"
proof -
  have z: "float64_of_int 0 = 0"
    using float64_of_int_small [of 0] by simp
  have u: "json_Unmarshal sample_lib doc_runner
             = Inr (json_view (AMap (marshal_data options_runner)))"
    by (simp add: marshal_data_runner z sample_lib_def doc_runner_def)
  have m: "json_Marshal sample_lib (AMap (marshal_data options_runner)) = Inr doc_runner"
    by (simp add: sample_lib_def)
  show ?thesis
    unfolding json_round_trip_def using m u by simp
qed

theorem LoggerOptions_round_trip_witness:
  "MarshalJSON sample_lib options_runner = Inr doc_runner
   \<and> distinct (map fst (Attributes options_runner))
   \<and> (\<exists>l'. UnmarshalJSON sample_lib list_order doc_runner zero_LoggerOptions = (None, l')
            \<and> Type l' = Type options_runner \<and> Level l' = Level options_runner
            \<and> mset (Attributes l') = mset (Attributes options_runner))"
proof -
  have enc: "MarshalJSON sample_lib options_runner = Inr doc_runner" by code_simp
  have keys: "distinct (map fst (Attributes options_runner))"
    by (simp add: options_runner_def)
  have stable: "\<forall>(k, v) \<in> set (Attributes options_runner). json_stable v"
    by (simp add: options_runner_def json_stable_String)
  have lvl: "\<forall>n. Level options_runner = Some n \<longrightarrow> \<bar>n\<bar> < 2 ^ 53"
    by (simp add: options_runner_def)
  have ord: "\<forall>m :: (string \<times> any) list. mset (list_order m) = mset m"
    by (simp add: list_order_def)
  from LoggerOptions_round_trip [OF enc sample_round_trip_runner keys stable lvl ord]
  have "\<exists>l'. UnmarshalJSON sample_lib list_order doc_runner zero_LoggerOptions = (None, l')
            \<and> Type l' = Type options_runner \<and> Level l' = Level options_runner
            \<and> mset (Attributes l') = mset (Attributes options_runner)" .
  with enc keys show ?thesis by blast
qed

section \<open>Properties of the plugin stub\<close>









lemma emit_no_Listening:
  "Listening p \<notin> set tr \<Longrightarrow> Listening p \<notin> set (emit lg level msg tr)"
  by (simp add: emit_def)







section \<open>Properties of the registry\<close>

lemma LoadedPlugins_Close_keeps_map:
  "snd (fst (LoadedPlugins_Close env l w)) = l"
  by (simp add: LoadedPlugins_Close_def Let_def split: prod.splits sum.splits option.splits)

lemma LoadAll_registry_or_error:
  "(fst (fst (LoadAll lib fs env cfg)) = None) \<noteq> (snd (fst (LoadAll lib fs env cfg)) = None)"
  by (auto simp: LoadAll_def Let_def split: sum.splits prod.splits option.splits if_splits)

text \<open>
  C2 says that \<open>Close\<close> clears the mapping and that a second \<open>Close\<close> returns nil. The code
  copies the mapping and leaves it as it is, so the second call signals the same
  processes again. In the example the registry returned by a successful load is closed
  twice: the first call returns nil and leaves the plugin \<open>p\<close> in the mapping; by the second
  call the process group has exited, the signal fails, and \<open>Close\<close> returns that error.
\<close>

theorem Close_twice_returns_error:
  "fst good_load = (Some sample_registry, None)
   \<and> fst (fst first_close) = None
   \<and> pluginsMap (snd (fst first_close)) = pluginsMap sample_registry
   \<and> map fst (pluginsMap sample_registry) = [''p'']
   \<and> fst (fst second_close) =
       Some (Wrap ''failed to close one or more plugins''
              (Wrap ''failed to terminate plugin process'' (External ''no such process'')))"
proof -
  have a: "fst good_load = (Some sample_registry, None)" by code_simp
  have b: "fst (fst first_close) = None" by code_simp
  have c: "pluginsMap (snd (fst first_close)) = pluginsMap sample_registry" by code_simp
  have d: "map fst (pluginsMap sample_registry) = [''p'']" by code_simp
  have e: "fst (fst second_close) =
       Some (Wrap ''failed to close one or more plugins''
              (Wrap ''failed to terminate plugin process'' (External ''no such process'')))"
    by code_simp
  from a b c d e show ?thesis by simp
qed

text \<open>
  C1 says that after a failed load no port remains leased. When the client of a plugin
  cannot be created, \<open>LoadPlugin\<close> signals the process it has started and returns the
  error, but it does not release the port that \<open>startPluginServer\<close> acquired, and the
  plugin is not in the mapping that the deferred \<open>Close\<close> walks. In the example the load
  returns no registry and an error, the one process started (pid 4242) has been sent the
  signal, and port 40000 is still marked as used in the port manager.
\<close>

theorem LoadAll_failed_client_keeps_port:
  "fst failed_load =
     (None,
      Some (Wrap ''failed to load plugin p''
             (Wrap ''failed to create client for plugin p''
               (Wrap ''failed to create gRPC client for plugin p at localhost:40000''
                 (External ''grpc: failed to create client'')))))
   \<and> length (effects (snd failed_load)) = 2
   \<and> hd (effects (snd failed_load)) =
       Started 4242 ''/work/./p''
         [''/usr/bin/env'', ''go'', ''run'', ''./...'', ''-port'', ''40000'',
          ''-tls_key_and_cert'', render_KeyAndCert (sample_serialized ''p''),
          ''-plugin_name'', ''p'']
   \<and> last (effects (snd failed_load)) = Killed 4242 None
   \<and> usedPorts (portMgr (snd failed_load)) = {40000}"
proof -
  have a: "fst failed_load =
     (None,
      Some (Wrap ''failed to load plugin p''
             (Wrap ''failed to create client for plugin p''
               (Wrap ''failed to create gRPC client for plugin p at localhost:40000''
                 (External ''grpc: failed to create client'')))))"
    by code_simp
  have b: "length (effects (snd failed_load)) = 2" by code_simp
  have c: "hd (effects (snd failed_load)) =
       Started 4242 ''/work/./p''
         [''/usr/bin/env'', ''go'', ''run'', ''./...'', ''-port'', ''40000'',
          ''-tls_key_and_cert'', render_KeyAndCert (sample_serialized ''p''),
          ''-plugin_name'', ''p'']"
    by code_simp
  have d: "last (effects (snd failed_load)) = Killed 4242 None" by code_simp
  have e: "usedPorts (portMgr (snd failed_load)) = {40000}" by code_simp
  from a b c d e show ?thesis by simp
qed

end
